theory Spec2Isabelle
  imports Main "HOL-Library.Word"
begin

section \<open>The console reader of firehose-sui (codec/console\_reader.go)\<close>

text \<open>
  The reader consumes the lines a Sui node prints, one \<open>FIRE ...\<close> command per line,
  and assembles them into one checkpoint block per \<open>ReadBlock\<close> call. The model
  passes the reader's state explicitly, returns every error and every Go run-time
  panic as a value, and takes the collaborators the file imports (base64, the
  protobuf decoder, the methods of the \<open>pbsui\<close> package, the block encoder, the
  clock) as the fields of an environment record.
\<close>

subsection \<open>Go library functions\<close>

type_synonym uint64 = "64 word"
type_synonym bytes = "8 word list"
type_synonym time = int

datatype num_error = ErrSyntax | ErrRange

definition is_digit :: "char \<Rightarrow> bool" where
  "is_digit c = (48 \<le> (of_char c :: nat) \<and> (of_char c :: nat) \<le> 57)"

text \<open>\<open>maxUint64 / 10 + 1\<close>, the cutoff of \<open>strconv.ParseUint\<close> in base 10.\<close>

definition cutoff :: uint64 where
  "cutoff = 1844674407370955162"

text \<open>
  The digit loop of \<open>strconv.ParseUint(s, 10, 64)\<close>: a byte that is not a decimal digit
  is a syntax error; \<open>n >= cutoff\<close> or a wrapped addition is a range error.
\<close>

fun parse_digits :: "uint64 \<Rightarrow> string \<Rightarrow> num_error + uint64" where
  "parse_digits n [] = Inr n"
| "parse_digits n (c # cs) =
     (if \<not> is_digit c then Inl ErrSyntax
      else if cutoff \<le> n then Inl ErrRange
      else
        let n10 = n * 10;
            n1 = n10 + of_nat (of_char c - 48)
        in if n1 < n10 then Inl ErrRange else parse_digits n1 cs)"

definition ParseUint :: "string \<Rightarrow> num_error + uint64" where
  "ParseUint s = (if s = [] then Inl ErrSyntax else parse_digits 0 s)"

text \<open>\<open>strings.Split(s, " ")\<close>: one token more than there are spaces.\<close>

fun Split :: "string \<Rightarrow> string list" where
  "Split [] = [[]]"
| "Split (c # cs) =
     (if c = CHR '' '' then [] # Split cs
      else (case Split cs of [] \<Rightarrow> [[c]] | t # ts \<Rightarrow> (c # t) # ts))"

definition HasPrefix :: "string \<Rightarrow> string \<Rightarrow> bool" where
  "HasPrefix s prefix = (take (length prefix) s = prefix)"

subsection \<open>Errors, panics and results\<close>

text \<open>
  One constructor per \<open>fmt.Errorf\<close> of the file, with the values it formats; \<open>%w\<close>
  wrapping is a constructor that holds the wrapped error. \<open>EOF\<close> is \<open>io.EOF\<close>;
  \<open>Foreign\<close> is an error that a collaborator returned. \<open>OnLine\<close> is \<open>lineError\<close>.
\<close>

datatype 'x error =
    EOF
  | InvalidLogLine string
  | InitAlreadyRead
  | OnLine "'x error" string
  | FieldsRequired "nat list" nat
  | InvalidLineLength "'x error"
  | InvalidMajorVersion string num_error
  | InvalidMinorVersion string num_error
  | UnsupportedMajorVersion uint64
  | InvalidBlockStartLine "'x error"
  | InvalidBlockStartHeight num_error
  | NoActiveBlock string
  | InvalidBase64 string uint64 int
  | InvalidProto string uint64 'x
  | InvalidBlockEndLine "'x error"
  | InvalidBlockEndHeight num_error
  | HeightMismatch uint64 uint64
  | NoTransaction uint64
  | Foreign 'x

text \<open>
  The run-time panics: slicing a string past its end, selecting a field through a nil
  pointer, and a panic inside a method of the \<open>pbsui\<close> package.
\<close>

datatype panic = SliceBoundsOutOfRange | NilPointerDereference | PbPanic

datatype ('a, 'x) res = Ok 'a | Err "'x error" | Panic panic

definition lineError :: "string \<Rightarrow> 'x error \<Rightarrow> 'x error" where
  "lineError line source = OnLine source line"

definition validateChunk :: "string list \<Rightarrow> nat \<Rightarrow> 'x error option" where
  "validateChunk params count =
     (if length params \<noteq> count then Some (FieldsRequired [count] (length params)) else None)"

definition validateVariableChunk :: "string list \<Rightarrow> nat list \<Rightarrow> 'x error option" where
  "validateVariableChunk params counts =
     (if length params \<in> set counts then None
      else Some (FieldsRequired counts (length params)))"

subsection \<open>The data\<close>

text \<open>
  \<open>pbsui.Checkpoint\<close> and \<open>pbsui.CheckpointData\<close> with the fields the reader touches;
  the other fields of a checkpoint are \<open>OtherFields\<close>. A nil pointer is \<open>None\<close>, a nil
  slice is \<open>[]\<close>.
\<close>

record 'r Checkpoint =
  SequenceNumber :: uint64
  OtherFields :: 'r

record ('r, 'tx, 'oc, 'ev, 'du) CheckpointData =
  Checkpoint :: "'r Checkpoint option"
  Transactions :: "'tx list"
  ObjectChange :: "'oc option"
  Events :: "'ev list"
  DisplayUpdates :: "'du list"

record BlockRef =
  RefId :: string
  RefNum :: uint64

record ('r, 'tx, 'oc, 'ev, 'du) BlockEnveloppe =
  Block :: "('r, 'tx, 'oc, 'ev, 'du) CheckpointData"
  LIBNum :: uint64

text \<open>
  \<open>consoleReaderStats\<close>: the two rate counters as the totals added to them, the
  average-duration counter as the durations added to it.
\<close>

record consoleReaderStats =
  lastBlock :: BlockRef
  blockRate :: int
  blockAverageParseTime :: "int list"
  transactionRate :: int

text \<open>The calls the reader makes on its logger, with the fields it passes.\<close>

datatype log_entry =
    WarnSkippingBeforeInit string
  | DebugSkippingUnknown string
  | InfoLinesClosed
  | InfoInitialized string string string uint64 uint64 string
  | InfoBlockStartWhileActive uint64 uint64
  | DebugNodeBlock string uint64 time

text \<open>
  \<open>ConsoleReader\<close>. Beside the fields of the Go struct, the state holds what the reader
  has done to its collaborators: \<open>logged\<close> (the logger calls), \<open>encoded\<close> (the envelopes
  given to the encoder) and \<open>ticks\<close> (how often the clock has been read).
\<close>

record ('r, 'tx, 'oc, 'ev, 'du) ConsoleReader =
  activeBlockStartTime :: time
  activeBlock :: "('r, 'tx, 'oc, 'ev, 'du) CheckpointData option"
  chainID :: string
  initRead :: bool
  stats :: consoleReaderStats
  logged :: "log_entry list"
  encoded :: "('r, 'tx, 'oc, 'ev, 'du) BlockEnveloppe list"
  ticks :: nat

text \<open>
  The collaborators. \<open>DecodeString\<close> is \<open>base64.StdEncoding.DecodeString\<close> (its error
  is the offset of the corrupt input), the \<open>Unmarshal\<close> fields are \<open>proto.Unmarshal\<close>
  at each message type, \<open>Encode\<close> is the \<open>firecore.BlockEncoder\<close>, \<open>Now n\<close> is the
  \<open>n\<close>-th reading of the clock and \<open>DebugEnabled\<close> the logger's level. The
  \<open>GetFirehose...\<close> methods and \<open>AsRef\<close> belong to the \<open>pbsui\<close> package, whose source
  is not part of the files modelled here: they are parameters, and \<open>None\<close> is a call
  that panics.
\<close>

record ('r, 'tx, 'oc, 'ev, 'du, 'blk, 'x) env =
  DecodeString :: "string \<Rightarrow> int + bytes"
  UnmarshalCheckpoint :: "bytes \<Rightarrow> 'x + 'r Checkpoint"
  UnmarshalTransaction :: "bytes \<Rightarrow> 'x + 'tx"
  UnmarshalObjectChange :: "bytes \<Rightarrow> 'x + 'oc"
  UnmarshalEvent :: "bytes \<Rightarrow> 'x + 'ev"
  UnmarshalDisplay :: "bytes \<Rightarrow> 'x + 'du"
  GetFirehoseBlockNumber :: "('r, 'tx, 'oc, 'ev, 'du) CheckpointData \<Rightarrow> uint64 option"
  GetFirehoseBlockID :: "('r, 'tx, 'oc, 'ev, 'du) CheckpointData \<Rightarrow> string option"
  GetFirehoseBlockTime :: "('r, 'tx, 'oc, 'ev, 'du) CheckpointData \<Rightarrow> time option"
  GetFirehoseBlockLIBNum :: "('r, 'tx, 'oc, 'ev, 'du) CheckpointData \<Rightarrow> uint64 option"
  AsRef :: "('r, 'tx, 'oc, 'ev, 'du) CheckpointData \<Rightarrow> BlockRef option"
  Encode :: "('r, 'tx, 'oc, 'ev, 'du) BlockEnveloppe \<Rightarrow> 'x + 'blk"
  Now :: "nat \<Rightarrow> time"
  DebugEnabled :: bool

definition LogPrefix :: string where "LogPrefix = ''FIRE''"
definition LogInit :: string where "LogInit = ''INIT''"
definition LogCheckpoint :: string where "LogCheckpoint = ''CHECKPOINT''"
definition LogBlockStart :: string where "LogBlockStart = ''BLOCK_START''"
definition LogTrx :: string where "LogTrx = ''TRX''"
definition LogObjChange :: string where "LogObjChange = ''OBJ_CHANGE''"
definition LogEvent :: string where "LogEvent = ''EVT''"
definition LogDisplayUpdate :: string where "LogDisplayUpdate = ''DSP_UPDATE''"
definition LogBlockEnd :: string where "LogBlockEnd = ''BLOCK_END''"

text \<open>\<open>&pbsui.CheckpointData{}\<close>: every field nil.\<close>

definition emptyCheckpointData :: "('r, 'tx, 'oc, 'ev, 'du) CheckpointData" where
  "emptyCheckpointData =
     \<lparr>Checkpoint = None, Transactions = [], ObjectChange = None, Events = [],
      DisplayUpdates = []\<rparr>"

subsection \<open>The handlers\<close>

text \<open>
  \<open>readInit\<close>. The second \<open>ParseUint\<close> reads \<open>params[3]\<close> again, as the source does;
  only its error message names \<open>params[4]\<close>.
\<close>

definition readInit ::
  "('r, 'tx, 'oc, 'ev, 'du) ConsoleReader \<Rightarrow> string list \<Rightarrow>
   (unit, 'x) res \<times> ('r, 'tx, 'oc, 'ev, 'du) ConsoleReader" where
  "readInit r params =
     (case validateVariableChunk params [6, 7] of
        Some e \<Rightarrow> (Err (InvalidLineLength e), r)
      | None \<Rightarrow>
          let clientName = params ! 0;
              clientVersion = params ! 1;
              fork = params ! 2
          in
          (case ParseUint (params ! 3) of
             Inl e \<Rightarrow> (Err (InvalidMajorVersion (params ! 3) e), r)
           | Inr firehoseMajor \<Rightarrow>
               (case ParseUint (params ! 3) of
                  Inl e \<Rightarrow> (Err (InvalidMinorVersion (params ! 4) e), r)
                | Inr firehoseMinor \<Rightarrow>
                    if firehoseMajor \<noteq> 0 then (Err (UnsupportedMajorVersion firehoseMajor), r)
                    else
                      let chainIDString =
                            (if length params = 6 then params ! 5 else params ! 6)
                      in (Ok (),
                          r\<lparr>logged := logged r @
                               [InfoInitialized clientName clientVersion fork
                                  firehoseMajor firehoseMinor chainIDString],
                            chainID := chainIDString,
                            initRead := True\<rparr>))))"

text \<open>
  \<open>readBlockStart\<close>. The parsed height only reaches the log call. That call selects
  \<open>r.activeBlock.Checkpoint.SequenceNumber\<close>, a field behind the \<open>Checkpoint\<close> pointer,
  which is nil until a \<open>CHECKPOINT\<close> line has been read.
\<close>

definition readBlockStart ::
  "('r, 'tx, 'oc, 'ev, 'du, 'blk, 'x) env \<Rightarrow> ('r, 'tx, 'oc, 'ev, 'du) ConsoleReader \<Rightarrow>
   string list \<Rightarrow> (unit, 'x) res \<times> ('r, 'tx, 'oc, 'ev, 'du) ConsoleReader" where
  "readBlockStart env r params =
     (case validateChunk params 1 of
        Some e \<Rightarrow> (Err (InvalidBlockStartLine e), r)
      | None \<Rightarrow>
          (case ParseUint (params ! 0) of
             Inl e \<Rightarrow> (Err (InvalidBlockStartHeight e), r)
           | Inr height \<Rightarrow>
               let start = (\<lambda>r'.
                     (Ok (),
                      r'\<lparr>activeBlockStartTime := Now env (ticks r'),
                         ticks := Suc (ticks r'),
                         activeBlock := Some emptyCheckpointData\<rparr>))
               in
               (case activeBlock r of
                  None \<Rightarrow> start r
                | Some b \<Rightarrow>
                    (case Checkpoint b of
                       None \<Rightarrow> (Panic NilPointerDereference, r)
                     | Some c \<Rightarrow>
                         start (r\<lparr>logged := logged r @
                           [InfoBlockStartWhileActive (SequenceNumber c) height]\<rparr>)))))"

definition validate ::
  "('r, 'tx, 'oc, 'ev, 'du, 'blk, 'x) env \<Rightarrow> ('r, 'tx, 'oc, 'ev, 'du) ConsoleReader \<Rightarrow>
   string list \<Rightarrow> string \<Rightarrow> (bytes, 'x) res" where
  "validate env r params valueType =
     (case validateChunk params 1 of
        Some e \<Rightarrow> Err (InvalidLineLength e)
      | None \<Rightarrow>
          (case activeBlock r of
             None \<Rightarrow> Err (NoActiveBlock valueType)
           | Some b \<Rightarrow>
               (case DecodeString env (params ! 0) of
                  Inl e \<Rightarrow>
                    (case GetFirehoseBlockNumber env b of
                       None \<Rightarrow> Panic PbPanic
                     | Some n \<Rightarrow> Err (InvalidBase64 valueType n e))
                | Inr out \<Rightarrow> Ok out)))"

text \<open>
  The five accumulation handlers. Each calls \<open>validate\<close>, then \<open>proto.Unmarshal\<close> at
  its message type, then writes to the active block (which \<open>validate\<close> has found not
  to be nil).
\<close>

text \<open>\<open>FIRE CHECKPOINT <pbsui.Checkpoint>\<close>\<close>

definition readCheckpointOverview ::
  "('r, 'tx, 'oc, 'ev, 'du, 'blk, 'x) env \<Rightarrow> ('r, 'tx, 'oc, 'ev, 'du) ConsoleReader \<Rightarrow>
   string list \<Rightarrow> (unit, 'x) res \<times> ('r, 'tx, 'oc, 'ev, 'du) ConsoleReader" where
  "readCheckpointOverview env r params =
     (case validate env r params ''CHECKPOINT'' of
        Err err \<Rightarrow> (Err err, r)
      | Panic p \<Rightarrow> (Panic p, r)
      | Ok out \<Rightarrow>
          (case activeBlock r of
             None \<Rightarrow> (Panic NilPointerDereference, r)
           | Some b \<Rightarrow>
               (case UnmarshalCheckpoint env out of
                  Inl err \<Rightarrow>
                    (case GetFirehoseBlockNumber env b of
                       None \<Rightarrow> (Panic PbPanic, r)
                     | Some number \<Rightarrow> (Err (InvalidProto ''CHECKPOINT'' number err), r))
                | Inr checkpoint \<Rightarrow>
                    (Ok (), r\<lparr>activeBlock := Some (b\<lparr>Checkpoint := Some checkpoint\<rparr>)\<rparr>))))"

text \<open>\<open>FIRE TRX <pbsui.Transaction>\<close>\<close>

definition readTransactionBlock ::
  "('r, 'tx, 'oc, 'ev, 'du, 'blk, 'x) env \<Rightarrow> ('r, 'tx, 'oc, 'ev, 'du) ConsoleReader \<Rightarrow>
   string list \<Rightarrow> (unit, 'x) res \<times> ('r, 'tx, 'oc, 'ev, 'du) ConsoleReader" where
  "readTransactionBlock env r params =
     (case validate env r params ''TRX'' of
        Err err \<Rightarrow> (Err err, r)
      | Panic p \<Rightarrow> (Panic p, r)
      | Ok out \<Rightarrow>
          (case activeBlock r of
             None \<Rightarrow> (Panic NilPointerDereference, r)
           | Some b \<Rightarrow>
               (case UnmarshalTransaction env out of
                  Inl err \<Rightarrow>
                    (case GetFirehoseBlockNumber env b of
                       None \<Rightarrow> (Panic PbPanic, r)
                     | Some number \<Rightarrow> (Err (InvalidProto ''TRX'' number err), r))
                | Inr transaction \<Rightarrow>
                    (Ok (), r\<lparr>activeBlock := Some (b\<lparr>Transactions := Transactions b @ [transaction]\<rparr>)\<rparr>))))"

text \<open>\<open>FIRE OBJ_CHANGE <pbsui.TransactionObjectChange>\<close>\<close>

definition readTransactionObjectChange ::
  "('r, 'tx, 'oc, 'ev, 'du, 'blk, 'x) env \<Rightarrow> ('r, 'tx, 'oc, 'ev, 'du) ConsoleReader \<Rightarrow>
   string list \<Rightarrow> (unit, 'x) res \<times> ('r, 'tx, 'oc, 'ev, 'du) ConsoleReader" where
  "readTransactionObjectChange env r params =
     (case validate env r params ''OBJ_CHANGE'' of
        Err err \<Rightarrow> (Err err, r)
      | Panic p \<Rightarrow> (Panic p, r)
      | Ok out \<Rightarrow>
          (case activeBlock r of
             None \<Rightarrow> (Panic NilPointerDereference, r)
           | Some b \<Rightarrow>
               (case UnmarshalObjectChange env out of
                  Inl err \<Rightarrow>
                    (case GetFirehoseBlockNumber env b of
                       None \<Rightarrow> (Panic PbPanic, r)
                     | Some number \<Rightarrow> (Err (InvalidProto ''OBJ_CHANGE'' number err), r))
                | Inr tx_object_change \<Rightarrow>
                    (Ok (), r\<lparr>activeBlock := Some (b\<lparr>ObjectChange := Some tx_object_change\<rparr>)\<rparr>))))"

text \<open>\<open>FIRE EVT <pbsui.IndexedEvent>\<close>\<close>

definition readEvent ::
  "('r, 'tx, 'oc, 'ev, 'du, 'blk, 'x) env \<Rightarrow> ('r, 'tx, 'oc, 'ev, 'du) ConsoleReader \<Rightarrow>
   string list \<Rightarrow> (unit, 'x) res \<times> ('r, 'tx, 'oc, 'ev, 'du) ConsoleReader" where
  "readEvent env r params =
     (case validate env r params ''EVT'' of
        Err err \<Rightarrow> (Err err, r)
      | Panic p \<Rightarrow> (Panic p, r)
      | Ok out \<Rightarrow>
          (case activeBlock r of
             None \<Rightarrow> (Panic NilPointerDereference, r)
           | Some b \<Rightarrow>
               (case UnmarshalEvent env out of
                  Inl err \<Rightarrow>
                    (case GetFirehoseBlockNumber env b of
                       None \<Rightarrow> (Panic PbPanic, r)
                     | Some number \<Rightarrow> (Err (InvalidProto ''EVT'' number err), r))
                | Inr event \<Rightarrow>
                    (Ok (), r\<lparr>activeBlock := Some (b\<lparr>Events := Events b @ [event]\<rparr>)\<rparr>))))"

text \<open>\<open>FIRE DSP_UPDATE <pbsui.StoredDisplay>\<close>\<close>

definition readDisplayUpdate ::
  "('r, 'tx, 'oc, 'ev, 'du, 'blk, 'x) env \<Rightarrow> ('r, 'tx, 'oc, 'ev, 'du) ConsoleReader \<Rightarrow>
   string list \<Rightarrow> (unit, 'x) res \<times> ('r, 'tx, 'oc, 'ev, 'du) ConsoleReader" where
  "readDisplayUpdate env r params =
     (case validate env r params ''DSP_UPDATE'' of
        Err err \<Rightarrow> (Err err, r)
      | Panic p \<Rightarrow> (Panic p, r)
      | Ok out \<Rightarrow>
          (case activeBlock r of
             None \<Rightarrow> (Panic NilPointerDereference, r)
           | Some b \<Rightarrow>
               (case UnmarshalDisplay env out of
                  Inl err \<Rightarrow>
                    (case GetFirehoseBlockNumber env b of
                       None \<Rightarrow> (Panic PbPanic, r)
                     | Some number \<Rightarrow> (Err (InvalidProto ''DSP_UPDATE'' number err), r))
                | Inr display_update \<Rightarrow>
                    (Ok (), r\<lparr>activeBlock := Some (b\<lparr>DisplayUpdates := DisplayUpdates b @ [display_update]\<rparr>)\<rparr>))))"

definition resetActiveBlock ::
  "('r, 'tx, 'oc, 'ev, 'du) ConsoleReader \<Rightarrow> ('r, 'tx, 'oc, 'ev, 'du) ConsoleReader" where
  "resetActiveBlock r = r\<lparr>activeBlock := None, activeBlockStartTime := 0\<rparr>"

text \<open>
  \<open>readBlockEnd\<close>. After the three checks the statistics are updated, the debug line is
  logged and the active block is reset; the encoder is called last, and its error is
  returned as it is.
\<close>

definition readBlockEnd ::
  "('r, 'tx, 'oc, 'ev, 'du, 'blk, 'x) env \<Rightarrow> ('r, 'tx, 'oc, 'ev, 'du) ConsoleReader \<Rightarrow>
   string list \<Rightarrow> ('blk, 'x) res \<times> ('r, 'tx, 'oc, 'ev, 'du) ConsoleReader" where
  "readBlockEnd env r params =
     (case validateChunk params 1 of
        Some e \<Rightarrow> (Err (InvalidBlockEndLine e), r)
      | None \<Rightarrow>
     (case ParseUint (params ! 0) of
        Inl e \<Rightarrow> (Err (InvalidBlockEndHeight e), r)
      | Inr height \<Rightarrow>
     (case activeBlock r of
        None \<Rightarrow> (Err (NoActiveBlock ''BLOCK_END''), r)
      | Some b \<Rightarrow>
     (case GetFirehoseBlockNumber env b of
        None \<Rightarrow> (Panic PbPanic, r)
      | Some number \<Rightarrow>
          if number \<noteq> height then (Err (HeightMismatch number height), r)
          else if length (Transactions b) = 0 then (Err (NoTransaction number), r)
          else
            let r1 = r\<lparr>stats := (stats r)
                         \<lparr>blockRate := blockRate (stats r) + 1,
                          transactionRate :=
                            transactionRate (stats r) + int (length (Transactions b)),
                          blockAverageParseTime := blockAverageParseTime (stats r) @
                            [Now env (ticks r) - activeBlockStartTime r]\<rparr>,
                       ticks := Suc (ticks r)\<rparr>
            in
            (case AsRef env b of
               None \<Rightarrow> (Panic PbPanic, r1)
             | Some ref \<Rightarrow>
            let r2 = r1\<lparr>stats := (stats r1)\<lparr>lastBlock := ref\<rparr>\<rparr> in
            (case GetFirehoseBlockID env b of
               None \<Rightarrow> (Panic PbPanic, r2)
             | Some ident \<Rightarrow>
            (case GetFirehoseBlockTime env b of
               None \<Rightarrow> (Panic PbPanic, r2)
             | Some timestamp \<Rightarrow>
            let r3 = r2\<lparr>logged := logged r2 @ [DebugNodeBlock ident number timestamp]\<rparr>;
                block = b;
                r4 = resetActiveBlock r3
            in
            (case GetFirehoseBlockLIBNum env block of
               None \<Rightarrow> (Panic PbPanic, r4)
             | Some lib \<Rightarrow>
            let enveloppe = \<lparr>Block = block, LIBNum = lib\<rparr>;
                r5 = r4\<lparr>encoded := encoded r4 @ [enveloppe]\<rparr>
            in
            (case Encode env enveloppe of
               Inl err \<Rightarrow> (Err (Foreign err), r5)
             | Inr bstreamBlock \<Rightarrow> (Ok bstreamBlock, r5))))))))))"

subsection \<open>The reading loop\<close>

text \<open>
  One turn of the loop of \<open>next\<close>: the reader either goes on to the following line
  (\<open>continue\<close>, or the end of the loop body) or returns.
\<close>

datatype ('s, 'blk, 'x) turn = Continue 's | Return "('blk, 'x) res" 's

text \<open>What follows a handler of the \<open>switch\<close>: \<open>if err != nil\<close> returns the line error.\<close>

definition after_handler ::
  "string \<Rightarrow> (unit, 'x) res \<times> 's \<Rightarrow> ('s, 'blk, 'x) turn" where
  "after_handler line hr =
     (case hr of
        (Ok u, r') \<Rightarrow> Continue r'
      | (Err e, r') \<Rightarrow> Return (Err (lineError line e)) r'
      | (Panic p, r') \<Rightarrow> Return (Panic p) r')"

definition next_turn ::
  "('r, 'tx, 'oc, 'ev, 'du, 'blk, 'x) env \<Rightarrow> ('r, 'tx, 'oc, 'ev, 'du) ConsoleReader \<Rightarrow>
   string \<Rightarrow> (('r, 'tx, 'oc, 'ev, 'du) ConsoleReader, 'blk, 'x) turn" where
  "next_turn env r line =
     (if \<not> HasPrefix line LogPrefix then Continue r
      else if length line < length LogPrefix + 1 then Return (Panic SliceBoundsOutOfRange) r
      else
        let tokens = Split (drop (length LogPrefix + 1) line) in
        if length tokens < 2 then Return (Err (InvalidLogLine line)) r
        else if \<not> initRead r then
          (if tokens ! 0 = LogInit then after_handler line (readInit r (drop 1 tokens))
           else Continue (r\<lparr>logged := logged r @ [WarnSkippingBeforeInit (tokens ! 0)]\<rparr>))
        else if tokens ! 0 = LogCheckpoint then
          after_handler line (readCheckpointOverview env r (drop 1 tokens))
        else if tokens ! 0 = LogTrx then
          after_handler line (readTransactionBlock env r (drop 1 tokens))
        else if tokens ! 0 = LogObjChange then
          after_handler line (readTransactionObjectChange env r (drop 1 tokens))
        else if tokens ! 0 = LogEvent then
          after_handler line (readEvent env r (drop 1 tokens))
        else if tokens ! 0 = LogDisplayUpdate then
          after_handler line (readDisplayUpdate env r (drop 1 tokens))
        else if tokens ! 0 = LogBlockStart then
          after_handler line (readBlockStart env r (drop 1 tokens))
        else if tokens ! 0 = LogBlockEnd then
          (case readBlockEnd env r (drop 1 tokens) of
             (Ok block, r') \<Rightarrow> Return (Ok block) r'
           | (Err e, r') \<Rightarrow> Return (Err (lineError line e)) r'
           | (Panic p, r') \<Rightarrow> Return (Panic p) r')
        else if tokens ! 0 = LogInit then
          Return (Err (lineError line InitAlreadyRead)) r
        else
          Continue (if DebugEnabled env
                    then r\<lparr>logged := logged r @ [DebugSkippingUnknown line]\<rparr> else r))"

text \<open>
  \<open>next\<close>, on the lines the channel delivers before it is closed. The result is what
  \<open>next\<close> returns, the reader afterwards, and the lines still in the channel.
\<close>

fun next' ::
  "('r, 'tx, 'oc, 'ev, 'du, 'blk, 'x) env \<Rightarrow> ('r, 'tx, 'oc, 'ev, 'du) ConsoleReader \<Rightarrow>
   string list \<Rightarrow>
   ('blk, 'x) res \<times> ('r, 'tx, 'oc, 'ev, 'du) ConsoleReader \<times> string list" where
  "next' env r [] = (Err EOF, r\<lparr>logged := logged r @ [InfoLinesClosed]\<rparr>, [])"
| "next' env r (line # lines) =
     (case next_turn env r line of
        Continue r' \<Rightarrow> next' env r' lines
      | Return out r' \<Rightarrow> (out, r', lines))"

text \<open>
  \<open>ReadBlock\<close> hands on what \<open>next\<close> returns: an error as it is, a block as it is (the
  block of \<open>next\<close> is an interface value that holds a pointer, so the nil test of
  \<open>ReadBlock\<close> does not fire).
\<close>

definition ReadBlock ::
  "('r, 'tx, 'oc, 'ev, 'du, 'blk, 'x) env \<Rightarrow> ('r, 'tx, 'oc, 'ev, 'du) ConsoleReader \<Rightarrow>
   string list \<Rightarrow>
   ('blk, 'x) res \<times> ('r, 'tx, 'oc, 'ev, 'du) ConsoleReader \<times> string list" where
  "ReadBlock env r lines =
     (case next' env r lines of
        (Err err, r', rest) \<Rightarrow> (Err err, r', rest)
      | (Panic p, r', rest) \<Rightarrow> (Panic p, r', rest)
      | (Ok block, r', rest) \<Rightarrow> (Ok block, r', rest))"

subsection \<open>The reader at construction\<close>

definition newConsoleReaderStats :: consoleReaderStats where
  "newConsoleReaderStats =
     \<lparr>lastBlock = \<lparr>RefId = [], RefNum = 0\<rparr>, blockRate = 0, blockAverageParseTime = [],
      transactionRate = 0\<rparr>"

definition NewConsoleReader :: "('r, 'tx, 'oc, 'ev, 'du) ConsoleReader" where
  "NewConsoleReader =
     \<lparr>activeBlockStartTime = 0, activeBlock = None, chainID = [], initRead = False,
      stats = newConsoleReaderStats, logged = [], encoded = [], ticks = 0\<rparr>"

subsection \<open>An environment to evaluate the reader in\<close>

text \<open>
  Concrete collaborators for the closed examples below. The decoder knows five base64
  strings (of the bytes \<open>T1\<close>, \<open>T2\<close>, \<open>0x0A\<close>, \<open>0x0B\<close> and \<open>0x00\<close>) and rejects every other
  input at offset 0; a checkpoint is one byte, its sequence number; the other
  messages are their bytes, and the single byte 0 is not a message. The methods of
  \<open>pbsui\<close> read the checkpoint; on a block whose checkpoint is nil the block number
  is \<open>nil_number\<close> (\<open>None\<close>: the call panics) and so is every other method's answer.
  The encoder returns its envelope.
\<close>

definition example_decode :: "string \<Rightarrow> int + bytes" where
  "example_decode s =
     (if s = ''VDE='' then Inr [84, 49]
      else if s = ''VDI='' then Inr [84, 50]
      else if s = ''Cg=='' then Inr [10]
      else if s = ''Cw=='' then Inr [11]
      else if s = ''AA=='' then Inr [0]
      else Inl 0)"

definition example_message :: "bytes \<Rightarrow> string + bytes" where
  "example_message bs = (if bs = [0] then Inl ''invalid proto'' else Inr bs)"

definition example_checkpoint :: "bytes \<Rightarrow> string + unit Checkpoint" where
  "example_checkpoint bs =
     (case bs of
        [n] \<Rightarrow> if n = 0 then Inl ''invalid proto''
               else Inr \<lparr>SequenceNumber = of_nat (unat n), OtherFields = ()\<rparr>
      | _ \<Rightarrow> Inl ''invalid proto'')"

definition example_method ::
  "uint64 option \<Rightarrow> (unit Checkpoint \<Rightarrow> 'a) \<Rightarrow> 'a \<Rightarrow>
   (unit, bytes, bytes, bytes, bytes) CheckpointData \<Rightarrow> 'a option" where
  "example_method nil_number f d b =
     (case Checkpoint b of
        Some c \<Rightarrow> Some (f c)
      | None \<Rightarrow> (case nil_number of None \<Rightarrow> None | Some n \<Rightarrow> Some d))"

definition example_env ::
  "uint64 option \<Rightarrow>
   (unit, bytes, bytes, bytes, bytes, (unit, bytes, bytes, bytes, bytes) BlockEnveloppe,
    string) env" where
  "example_env nil_number =
     \<lparr>DecodeString = example_decode,
      UnmarshalCheckpoint = example_checkpoint,
      UnmarshalTransaction = example_message,
      UnmarshalObjectChange = example_message,
      UnmarshalEvent = example_message,
      UnmarshalDisplay = example_message,
      GetFirehoseBlockNumber =
        (\<lambda>b. case Checkpoint b of Some c \<Rightarrow> Some (SequenceNumber c) | None \<Rightarrow> nil_number),
      GetFirehoseBlockID = example_method nil_number (\<lambda>c. ''digest'') [],
      GetFirehoseBlockTime = example_method nil_number (\<lambda>c. 0) 0,
      GetFirehoseBlockLIBNum = example_method nil_number SequenceNumber 0,
      AsRef = example_method nil_number
        (\<lambda>c. \<lparr>RefId = ''digest'', RefNum = SequenceNumber c\<rparr>) \<lparr>RefId = [], RefNum = 0\<rparr>,
      Encode = Inr,
      Now = (\<lambda>n. 100 + 7 * int n),
      DebugEnabled = True\<rparr>"

text \<open>The reader after a handshake, with no block in progress.\<close>

definition example_reader :: "(unit, bytes, bytes, bytes, bytes) ConsoleReader" where
  "example_reader = NewConsoleReader\<lparr>chainID := ''chain'', initRead := True\<rparr>"

subsection \<open>Lines as the node prints them\<close>

text \<open>
  The line \<open>FIRE <command> <param>\<close> of the \<open>Format:\<close> comments: the prefix, the
  command word and one parameter, each followed by a single space.
\<close>

definition command_line :: "string \<Rightarrow> string \<Rightarrow> string" where
  "command_line command param = LogPrefix @ '' '' @ command @ '' '' @ param"

text \<open>
  A block in progress whose checkpoint has sequence number 10, and the reader that
  holds it.
\<close>

definition example_block :: "bytes list \<Rightarrow> (unit, bytes, bytes, bytes, bytes) CheckpointData" where
  "example_block txs =
     \<lparr>Checkpoint = Some \<lparr>SequenceNumber = 10, OtherFields = ()\<rparr>, Transactions = txs,
      ObjectChange = None, Events = [], DisplayUpdates = []\<rparr>"

definition example_reader_in_block ::
  "bytes list \<Rightarrow> (unit, bytes, bytes, bytes, bytes) ConsoleReader" where
  "example_reader_in_block txs =
     example_reader\<lparr>activeBlockStartTime := 93, activeBlock := Some (example_block txs)\<rparr>"

subsection \<open>What an accumulation command does\<close>

text \<open>
  The behaviour of the handler of an accumulation command, on its one parameter:
  \<^item> with no block in progress, the no-active-block error that names the command;
  \<^item> with a block in progress and a parameter that is not base64, the base64 error that
    names the command and the number of the block;
  \<^item> with a parameter that is base64 of bytes that are not a message of the command's
    type, the invalid-proto error that names the command and the number of the block;
  \<^item> with a parameter that is base64 of a message, the block in progress with the
    message written to it by \<open>write\<close>.
  The reader is unchanged in the three cases of an error.
\<close>

definition accumulation_handler ::
  "('r, 'tx, 'oc, 'ev, 'du, 'blk, 'x) env \<Rightarrow> string \<Rightarrow> (bytes \<Rightarrow> 'x + 'm) \<Rightarrow>
   ('m \<Rightarrow> ('r, 'tx, 'oc, 'ev, 'du) CheckpointData \<Rightarrow> ('r, 'tx, 'oc, 'ev, 'du) CheckpointData) \<Rightarrow>
   (('r, 'tx, 'oc, 'ev, 'du) ConsoleReader \<Rightarrow> string list \<Rightarrow>
    (unit, 'x) res \<times> ('r, 'tx, 'oc, 'ev, 'du) ConsoleReader) \<Rightarrow> bool" where
  "accumulation_handler env valueType unmarshal write handler =
     (\<forall>r param.
        (activeBlock r = None \<longrightarrow>
           handler r [param] = (Err (NoActiveBlock valueType), r)) \<and>
        (\<forall>b number offset.
           activeBlock r = Some b \<and> GetFirehoseBlockNumber env b = Some number \<and>
           DecodeString env param = Inl offset \<longrightarrow>
           handler r [param] = (Err (InvalidBase64 valueType number offset), r)) \<and>
        (\<forall>b number out err.
           activeBlock r = Some b \<and> GetFirehoseBlockNumber env b = Some number \<and>
           DecodeString env param = Inr out \<and> unmarshal out = Inl err \<longrightarrow>
           handler r [param] = (Err (InvalidProto valueType number err), r)) \<and>
        (\<forall>b out m.
           activeBlock r = Some b \<and> DecodeString env param = Inr out \<and>
           unmarshal out = Inr m \<longrightarrow>
           handler r [param] = (Ok (), r\<lparr>activeBlock := Some (write m b)\<rparr>)))"

text \<open>The methods of \<open>pbsui\<close> that \<open>readBlockEnd\<close> calls all return on the block \<open>b\<close>.\<close>

definition pbsui_methods_return ::
  "('r, 'tx, 'oc, 'ev, 'du, 'blk, 'x) env \<Rightarrow> ('r, 'tx, 'oc, 'ev, 'du) CheckpointData \<Rightarrow> bool" where
  "pbsui_methods_return env b =
     (GetFirehoseBlockNumber env b \<noteq> None \<and> AsRef env b \<noteq> None \<and>
      GetFirehoseBlockID env b \<noteq> None \<and> GetFirehoseBlockTime env b \<noteq> None \<and>
      GetFirehoseBlockLIBNum env b \<noteq> None)"

section \<open>Properties\<close>

subsection \<open>Tokens, numbers and lines\<close>

lemmas example_defs = example_env_def example_reader_def example_reader_in_block_def
  example_block_def example_method_def example_decode_def example_message_def
  example_checkpoint_def NewConsoleReader_def newConsoleReaderStats_def

lemmas Log_defs = LogInit_def LogCheckpoint_def LogBlockStart_def LogTrx_def LogObjChange_def
  LogEvent_def LogDisplayUpdate_def LogBlockEnd_def

lemma Log_distinct:
  "LogTrx \<noteq> LogCheckpoint"
  "LogObjChange \<noteq> LogCheckpoint"
  "LogObjChange \<noteq> LogTrx"
  "LogEvent \<noteq> LogCheckpoint"
  "LogEvent \<noteq> LogTrx"
  "LogEvent \<noteq> LogObjChange"
  "LogDisplayUpdate \<noteq> LogCheckpoint"
  "LogDisplayUpdate \<noteq> LogTrx"
  "LogDisplayUpdate \<noteq> LogObjChange"
  "LogDisplayUpdate \<noteq> LogEvent"
  "LogBlockStart \<noteq> LogCheckpoint"
  "LogBlockStart \<noteq> LogTrx"
  "LogBlockStart \<noteq> LogObjChange"
  "LogBlockStart \<noteq> LogEvent"
  "LogBlockStart \<noteq> LogDisplayUpdate"
  "LogBlockEnd \<noteq> LogCheckpoint"
  "LogBlockEnd \<noteq> LogTrx"
  "LogBlockEnd \<noteq> LogObjChange"
  "LogBlockEnd \<noteq> LogEvent"
  "LogBlockEnd \<noteq> LogDisplayUpdate"
  "LogBlockEnd \<noteq> LogBlockStart"
  "LogInit \<noteq> LogCheckpoint"
  "LogInit \<noteq> LogTrx"
  "LogInit \<noteq> LogObjChange"
  "LogInit \<noteq> LogEvent"
  "LogInit \<noteq> LogDisplayUpdate"
  "LogInit \<noteq> LogBlockStart"
  "LogInit \<noteq> LogBlockEnd"
  by (simp_all add: Log_defs)

lemma space_not_digit: "\<not> is_digit CHR '' ''"
  by (simp add: is_digit_def)

lemma parse_digits_no_space: "parse_digits n s = Inr h \<Longrightarrow> CHR '' '' \<notin> set s"
proof (induction s arbitrary: n)
  case Nil
  then show ?case by simp
next
  case (Cons c cs)
  then show ?case
    by (auto simp: Let_def space_not_digit split: if_splits)
qed

lemma ParseUint_no_space: "ParseUint s = Inr h \<Longrightarrow> CHR '' '' \<notin> set s"
  by (auto simp: ParseUint_def dest: parse_digits_no_space split: if_splits)

lemma ParseUint_0: "ParseUint ''0'' = Inr 0"
  by (simp add: ParseUint_def is_digit_def cutoff_def word_le_nat_alt word_less_nat_alt)

lemma ParseUint_10: "ParseUint ''10'' = Inr 10"
  by (simp add: ParseUint_def is_digit_def cutoff_def word_le_nat_alt word_less_nat_alt)

lemma ParseUint_11: "ParseUint ''11'' = Inr 11"
  by (simp add: ParseUint_def is_digit_def cutoff_def word_le_nat_alt word_less_nat_alt)

lemma Split_no_space: "CHR '' '' \<notin> set p \<Longrightarrow> Split p = [p]"
  by (induction p) auto

lemma Split_token: "CHR '' '' \<notin> set c \<Longrightarrow> Split (c @ CHR '' '' # p) = c # Split p"
  by (induction c) auto

lemma Split_not_Nil: "Split s \<noteq> []"
  by (induction s) (auto split: list.splits)

lemma tokens_command_line:
  "CHR '' '' \<notin> set command \<Longrightarrow> CHR '' '' \<notin> set param \<Longrightarrow>
   Split (drop (length LogPrefix + 1) (command_line command param)) = [command, param]"
  by (simp add: command_line_def LogPrefix_def Split_token Split_no_space)

lemma prefix_command_line: "HasPrefix (command_line command param) LogPrefix"
  by (simp add: command_line_def HasPrefix_def)

lemma length_command_line: "\<not> length (command_line command param) < length LogPrefix + 1"
  by (simp add: command_line_def)

text \<open>After the handshake, a command line reaches the handler of its command word.\<close>

lemma next_turn_command:
  assumes "CHR '' '' \<notin> set command" "CHR '' '' \<notin> set param" "initRead r"
  shows "next_turn env r (command_line command param) =
    (let line = command_line command param in
        if command = LogCheckpoint then
          after_handler line (readCheckpointOverview env r [param])
        else if command = LogTrx then
          after_handler line (readTransactionBlock env r [param])
        else if command = LogObjChange then
          after_handler line (readTransactionObjectChange env r [param])
        else if command = LogEvent then
          after_handler line (readEvent env r [param])
        else if command = LogDisplayUpdate then
          after_handler line (readDisplayUpdate env r [param])
        else if command = LogBlockStart then
          after_handler line (readBlockStart env r [param])
        else if command = LogBlockEnd then
          (case readBlockEnd env r [param] of
             (Ok block, r') \<Rightarrow> Return (Ok block) r'
           | (Err e, r') \<Rightarrow> Return (Err (lineError line e)) r'
           | (Panic p, r') \<Rightarrow> Return (Panic p) r')
        else if command = LogInit then
          Return (Err (lineError line InitAlreadyRead)) r
        else
          Continue (if DebugEnabled env
                    then r\<lparr>logged := logged r @ [DebugSkippingUnknown line]\<rparr> else r))"
  unfolding next_turn_def
  by (simp only: prefix_command_line length_command_line
        tokens_command_line[OF assms(1,2)] assms(3) Let_def)
     simp

lemma ReadBlock_next: "ReadBlock env r lines = next' env r lines"
  unfolding ReadBlock_def by (auto split: prod.splits res.splits)

subsection \<open>The handshake\<close>

text \<open>The fifth parameter of \<open>INIT\<close>, the minor version, has no effect on \<open>readInit\<close>.\<close>

lemma readInit_minor_not_read: "readInit r (params[4 := minor]) = readInit r params"
  by (cases "ParseUint (params ! 3)")
     (auto simp: readInit_def validateVariableChunk_def Let_def)

text \<open>
  C2: the handshake should parse the major version from parameter 4 and the minor
  version from parameter 5, so that a non-numeric minor version is a field-parse error
  and a numeric one is the minor version of the handshake. The reader parses parameter
  4 twice: with major version \<open>0\<close>, the minor-version field \<open>x\<close> is accepted, and the
  minor-version field \<open>7\<close> is logged as minor version \<open>0\<close>.
\<close>

theorem C2_minor_version_not_read:
  "readInit NewConsoleReader [''sui-node'', ''1.0'', ''mainnet'', ''0'', ''x'', ''chain''] =
     (Ok (), NewConsoleReader
        \<lparr>logged := [InfoInitialized ''sui-node'' ''1.0'' ''mainnet'' 0 0 ''chain''],
          chainID := ''chain'', initRead := True\<rparr>) \<and>
   readInit NewConsoleReader [''sui-node'', ''1.0'', ''mainnet'', ''0'', ''7'', ''chain''] =
     (Ok (), NewConsoleReader
        \<lparr>logged := [InfoInitialized ''sui-node'' ''1.0'' ''mainnet'' 0 0 ''chain''],
          chainID := ''chain'', initRead := True\<rparr>)"
  by (simp add: readInit_def validateVariableChunk_def ParseUint_0 NewConsoleReader_def Let_def)

lemma ParseUint_1: "ParseUint ''1'' = Inr 1"
  by (simp add: ParseUint_def is_digit_def cutoff_def word_le_nat_alt word_less_nat_alt)

text \<open>
  C10: the handshake is accepted with 6 or 7 parameters and with no other count (a
  line-format error); the chain identifier is the sixth parameter of six and the seventh
  of seven; a major version that parses to another number than 0 is a protocol-version
  error, whatever the minor-version field holds.
\<close>

theorem C10_handshake:
  "(length params \<noteq> 6 \<and> length params \<noteq> 7 \<longrightarrow>
      readInit r params =
        (Err (InvalidLineLength (FieldsRequired [6, 7] (length params))) :: (unit, 'x) res, r)) \<and>
   ((length params = 6 \<or> length params = 7) \<and> ParseUint (params ! 3) = Inr major \<and>
    major \<noteq> 0 \<longrightarrow>
      readInit r params = (Err (UnsupportedMajorVersion major) :: (unit, 'x) res, r)) \<and>
   (length params = 6 \<and> ParseUint (params ! 3) = Inr 0 \<longrightarrow>
      readInit r params =
        (Ok () :: (unit, 'x) res,
         r\<lparr>logged := logged r @
              [InfoInitialized (params ! 0) (params ! 1) (params ! 2) 0 0 (params ! 5)],
           chainID := params ! 5, initRead := True\<rparr>)) \<and>
   (length params = 7 \<and> ParseUint (params ! 3) = Inr 0 \<longrightarrow>
      readInit r params =
        (Ok () :: (unit, 'x) res,
         r\<lparr>logged := logged r @
              [InfoInitialized (params ! 0) (params ! 1) (params ! 2) 0 0 (params ! 6)],
           chainID := params ! 6, initRead := True\<rparr>))"
  by (auto simp: readInit_def validateVariableChunk_def Let_def)

theorem C10_handshake_witness:
  "readInit example_reader [''sui'', ''1.0'', ''main'', ''0'', ''3''] =
     (Err (InvalidLineLength (FieldsRequired [6, 7] 5)) :: (unit, string) res,
      example_reader) \<and>
   readInit example_reader [''sui'', ''1.0'', ''main'', ''1'', ''0'', ''chain''] =
     (Err (UnsupportedMajorVersion 1) :: (unit, string) res, example_reader) \<and>
   readInit example_reader [''sui'', ''1.0'', ''main'', ''0'', ''3'', ''id6''] =
     (Ok () :: (unit, string) res,
      example_reader\<lparr>logged := [InfoInitialized ''sui'' ''1.0'' ''main'' 0 0 ''id6''],
        chainID := ''id6'', initRead := True\<rparr>) \<and>
   readInit example_reader [''sui'', ''1.0'', ''main'', ''0'', ''3'', ''id6'', ''id7''] =
     (Ok () :: (unit, string) res,
      example_reader\<lparr>logged := [InfoInitialized ''sui'' ''1.0'' ''main'' 0 0 ''id7''],
        chainID := ''id7'', initRead := True\<rparr>)"
  using
    C10_handshake [where params = "[''sui'', ''1.0'', ''main'', ''0'', ''3'']"
      and r = example_reader and 'x = string]
    C10_handshake [where params = "[''sui'', ''1.0'', ''main'', ''1'', ''0'', ''chain'']"
      and r = example_reader and major = 1 and 'x = string]
    C10_handshake [where params = "[''sui'', ''1.0'', ''main'', ''0'', ''3'', ''id6'']"
      and r = example_reader and 'x = string]
    C10_handshake [where params = "[''sui'', ''1.0'', ''main'', ''0'', ''3'', ''id6'', ''id7'']"
      and r = example_reader and 'x = string]
  by (simp add: ParseUint_0 ParseUint_1 example_reader_def NewConsoleReader_def)

subsection \<open>Before the handshake\<close>

text \<open>
  C8: before the handshake, a line that carries any command but \<open>INIT\<close> is logged as a
  warning and passed over: the turn of the loop ends with no error and no block, and
  the reader differs from the one before in its log only, so it is still before the
  handshake.
\<close>

theorem C8_before_handshake:
  assumes "\<not> initRead r"
    and "HasPrefix line LogPrefix"
    and "Split (drop (length LogPrefix + 1) line) = command # param # params"
    and "command \<noteq> LogInit"
  shows "next_turn env r line =
           Continue (r\<lparr>logged := logged r @ [WarnSkippingBeforeInit command]\<rparr>) \<and>
         ReadBlock env r (line # rest) =
           ReadBlock env (r\<lparr>logged := logged r @ [WarnSkippingBeforeInit command]\<rparr>) rest"
proof -
  have long: "\<not> length line < length LogPrefix + 1"
  proof
    assume "length line < length LogPrefix + 1"
    then have "Split (drop (length LogPrefix + 1) line) = [[]]" by simp
    with assms(3) show False by simp
  qed
  have turn: "next_turn env r line =
      Continue (r\<lparr>logged := logged r @ [WarnSkippingBeforeInit command]\<rparr>)"
    unfolding next_turn_def using assms long by (simp add: Let_def)
  then show ?thesis by (simp add: ReadBlock_next)
qed

theorem C8_before_handshake_witness:
  "\<not> initRead (NewConsoleReader :: (unit, bytes, bytes, bytes, bytes) ConsoleReader) \<and>
   HasPrefix ''FIRE BLOCK_START 5'' LogPrefix \<and>
   Split (drop (length LogPrefix + 1) ''FIRE BLOCK_START 5'') = [''BLOCK_START'', ''5''] \<and>
   ''BLOCK_START'' \<noteq> LogInit \<and>
   next_turn (example_env None) NewConsoleReader ''FIRE BLOCK_START 5'' =
     Continue (NewConsoleReader\<lparr>logged := [WarnSkippingBeforeInit ''BLOCK_START'']\<rparr>) \<and>
   ReadBlock (example_env None) NewConsoleReader [''FIRE BLOCK_START 5''] =
     (Err EOF,
      NewConsoleReader\<lparr>logged := [WarnSkippingBeforeInit ''BLOCK_START'', InfoLinesClosed]\<rparr>, [])"
proof -
  have h1: "\<not> initRead (NewConsoleReader :: (unit, bytes, bytes, bytes, bytes) ConsoleReader)"
    by (simp add: NewConsoleReader_def)
  have h2: "HasPrefix ''FIRE BLOCK_START 5'' LogPrefix"
    by (simp add: HasPrefix_def LogPrefix_def)
  have h3: "Split (drop (length LogPrefix + 1) ''FIRE BLOCK_START 5'') =
      ''BLOCK_START'' # ''5'' # []"
    by (simp add: LogPrefix_def)
  have h4: "''BLOCK_START'' \<noteq> LogInit"
    by (simp add: LogInit_def)
  show ?thesis
    using h1 h2 h3 h4 C8_before_handshake [OF h1 h2 h3 h4, of "example_env None" "[]"]
    by (simp add: ReadBlock_next NewConsoleReader_def)
qed

subsection \<open>Lines without the marker, lines without tokens\<close>

lemma next_turn_no_prefix: "\<not> HasPrefix line LogPrefix \<Longrightarrow> next_turn env r line = Continue r"
  by (simp add: next_turn_def)

lemma next_turn_one_token:
  "CHR '' '' \<notin> set rest \<Longrightarrow>
   next_turn env r (LogPrefix @ '' '' @ rest) =
     Return (Err (InvalidLogLine (LogPrefix @ '' '' @ rest))) r"
  by (simp add: next_turn_def HasPrefix_def LogPrefix_def Split_no_space)

text \<open>
  The reader tests for the four characters \<open>FIRE\<close> and then drops five. A line that
  starts with \<open>FIRE\<close> and another character than a space is read as a command: before the
  handshake, \<open>FIREXINIT ...\<close> completes the handshake.
\<close>

lemma marker_without_space_is_read:
  "fst (ReadBlock (example_env None) NewConsoleReader [''FIREXINIT c v f 0 0 chain'']) = Err EOF \<and>
   initRead (fst (snd (ReadBlock (example_env None) NewConsoleReader
     [''FIREXINIT c v f 0 0 chain''])))"
  by code_simp

text \<open>
  C6: a line without the marker \<open>FIRE\<close> and a space should be passed over with no error
  and no change of state, and a line with the marker and fewer than two tokens should
  fail with a line-format error and never crash. On the line \<open>FIRE\<close>, the bare marker,
  the reader does neither: the slice \<open>line[5:]\<close> of a line of four characters panics.
\<close>

theorem C6_bare_marker_panics:
  "ReadBlock env r (''FIRE'' # rest) = (Panic SliceBoundsOutOfRange, r, rest)"
  by (simp add: ReadBlock_def next_turn_def HasPrefix_def LogPrefix_def)

subsection \<open>The end of the stream\<close>

text \<open>
  C3, as the claim states it, fails: with a block in progress and the channel closed,
  \<open>ReadBlock\<close> returns \<open>io.EOF\<close>, the value it returns when no block is in progress.
\<close>

theorem C3_counterexample:
  "activeBlock (example_reader\<lparr>activeBlock := Some emptyCheckpointData\<rparr>) \<noteq> None \<and>
   fst (ReadBlock (example_env None)
          (example_reader\<lparr>activeBlock := Some emptyCheckpointData\<rparr>) []) = Err EOF \<and>
   fst (ReadBlock (example_env None) example_reader []) = Err EOF"
  by (simp add: ReadBlock_def)

text \<open>
  C3, amended: when the channel is closed, \<open>ReadBlock\<close> returns \<open>io.EOF\<close> whether or
  not a block is in progress; the reader logs that the channel has been closed and is
  otherwise unchanged, so a block in progress stays in the reader.
\<close>

theorem C3_end_of_stream:
  "ReadBlock env r [] = (Err EOF, r\<lparr>logged := logged r @ [InfoLinesClosed]\<rparr>, [])"
  by (simp add: ReadBlock_def)

subsection \<open>The start of a block\<close>

lemma readBlockStart_nil_checkpoint:
  "activeBlock r = Some b \<Longrightarrow> Checkpoint b = None \<Longrightarrow> ParseUint s = Inr h \<Longrightarrow>
   readBlockStart env r [s] = (Panic NilPointerDereference, r)"
  by (simp add: readBlockStart_def validateChunk_def)

lemma readBlockStart_replaces:
  "activeBlock r = Some b \<Longrightarrow> Checkpoint b = Some c \<Longrightarrow> ParseUint s = Inr h \<Longrightarrow>
   readBlockStart env r [s] =
     (Ok (), r\<lparr>logged := logged r @ [InfoBlockStartWhileActive (SequenceNumber c) h],
               activeBlockStartTime := Now env (ticks r),
               ticks := Suc (ticks r),
               activeBlock := Some emptyCheckpointData\<rparr>)"
  by (simp add: readBlockStart_def validateChunk_def)

text \<open>
  C4: a \<open>BLOCK_START\<close> that arrives while a block is in progress should be logged and
  replace the block by a fresh one, whatever the block in progress holds. When the
  block in progress has no checkpoint yet, as right after its own \<open>BLOCK_START\<close>, the
  log call reads the sequence number through the nil \<open>Checkpoint\<close> pointer and the
  reader panics.
\<close>

theorem C4_second_block_start_panics:
  "ReadBlock (example_env None) example_reader
     [''FIRE BLOCK_START 1'', ''FIRE BLOCK_START 2''] =
   (Panic NilPointerDereference,
    example_reader\<lparr>activeBlockStartTime := 100, ticks := 1,
      activeBlock := Some emptyCheckpointData\<rparr>, [])"
  by code_simp

subsection \<open>The end of a block\<close>

lemma readBlockEnd_no_active:
  "ParseUint s = Inr h \<Longrightarrow> activeBlock r = None \<Longrightarrow>
   readBlockEnd env r [s] = (Err (NoActiveBlock ''BLOCK_END''), r)"
  by (simp add: readBlockEnd_def validateChunk_def)

lemma readBlockEnd_mismatch:
  "ParseUint s = Inr h \<Longrightarrow> activeBlock r = Some b \<Longrightarrow>
   GetFirehoseBlockNumber env b = Some n \<Longrightarrow> n \<noteq> h \<Longrightarrow>
   readBlockEnd env r [s] = (Err (HeightMismatch n h), r)"
  by (simp add: readBlockEnd_def validateChunk_def)

lemma readBlockEnd_empty:
  "ParseUint s = Inr h \<Longrightarrow> activeBlock r = Some b \<Longrightarrow>
   GetFirehoseBlockNumber env b = Some h \<Longrightarrow> Transactions b = [] \<Longrightarrow>
   readBlockEnd env r [s] = (Err (NoTransaction h), r)"
  by (simp add: readBlockEnd_def validateChunk_def)

lemma readBlockEnd_complete:
  assumes "ParseUint s = Inr h" "activeBlock r = Some b"
    and "GetFirehoseBlockNumber env b = Some h" "Transactions b \<noteq> []"
    and "AsRef env b = Some ref" "GetFirehoseBlockID env b = Some ident"
    and "GetFirehoseBlockTime env b = Some timestamp"
    and "GetFirehoseBlockLIBNum env b = Some lib"
  shows "readBlockEnd env r [s] =
    ((case Encode env \<lparr>Block = b, LIBNum = lib\<rparr> of
        Inl err \<Rightarrow> Err (Foreign err) | Inr bstreamBlock \<Rightarrow> Ok bstreamBlock),
     r\<lparr>stats :=
         \<lparr>lastBlock = ref,
          blockRate = blockRate (stats r) + 1,
          blockAverageParseTime = blockAverageParseTime (stats r) @
            [Now env (ticks r) - activeBlockStartTime r],
          transactionRate = transactionRate (stats r) + int (length (Transactions b))\<rparr>,
        ticks := Suc (ticks r),
        logged := logged r @ [DebugNodeBlock ident h timestamp],
        activeBlock := None,
        activeBlockStartTime := 0,
        encoded := encoded r @ [\<lparr>Block = b, LIBNum = lib\<rparr>]\<rparr>)"
  using assms
  by (simp add: readBlockEnd_def validateChunk_def Let_def resetActiveBlock_def
      split: sum.splits)

lemma ReadBlock_block_end:
  assumes "initRead r" "ParseUint s = Inr h"
  shows "ReadBlock env r (command_line LogBlockEnd s # rest) =
    (case readBlockEnd env r [s] of
       (Ok block, r') \<Rightarrow> (Ok block, r', rest)
     | (Err e, r') \<Rightarrow> (Err (OnLine e (command_line LogBlockEnd s)), r', rest)
     | (Panic p, r') \<Rightarrow> (Panic p, r', rest))"
proof -
  have "CHR '' '' \<notin> set LogBlockEnd" by (simp add: LogBlockEnd_def)
  moreover have "CHR '' '' \<notin> set s" using assms(2) by (rule ParseUint_no_space)
  ultimately have "next_turn env r (command_line LogBlockEnd s) =
      (case readBlockEnd env r [s] of
         (Ok block, r') \<Rightarrow> Return (Ok block) r'
       | (Err e, r') \<Rightarrow> Return (Err (lineError (command_line LogBlockEnd s) e)) r'
       | (Panic p, r') \<Rightarrow> Return (Panic p) r')"
    using assms(1) by (simp add: next_turn_command Log_distinct)
  then show ?thesis
    by (simp add: ReadBlock_next lineError_def split: prod.splits res.splits)
qed

text \<open>The four outcomes of a \<open>BLOCK_END\<close> line after the handshake.\<close>

lemma ReadBlock_block_end_cases:
  assumes "initRead r" and "ParseUint s = Inr h"
  shows
   "(activeBlock r = None \<longrightarrow>
       ReadBlock env r (command_line LogBlockEnd s # rest) =
         (Err (OnLine (NoActiveBlock ''BLOCK_END'') (command_line LogBlockEnd s)), r, rest)) \<and>
    (\<forall>b n. activeBlock r = Some b \<and> GetFirehoseBlockNumber env b = Some n \<and> n \<noteq> h \<longrightarrow>
       ReadBlock env r (command_line LogBlockEnd s # rest) =
         (Err (OnLine (HeightMismatch n h) (command_line LogBlockEnd s)), r, rest)) \<and>
    (\<forall>b. activeBlock r = Some b \<and> GetFirehoseBlockNumber env b = Some h \<and>
          Transactions b = [] \<longrightarrow>
       ReadBlock env r (command_line LogBlockEnd s # rest) =
         (Err (OnLine (NoTransaction h) (command_line LogBlockEnd s)), r, rest)) \<and>
    (\<forall>b ref ident timestamp lib.
       activeBlock r = Some b \<and> GetFirehoseBlockNumber env b = Some h \<and>
       Transactions b \<noteq> [] \<and> AsRef env b = Some ref \<and>
       GetFirehoseBlockID env b = Some ident \<and>
       GetFirehoseBlockTime env b = Some timestamp \<and>
       GetFirehoseBlockLIBNum env b = Some lib \<longrightarrow>
       encoded (fst (snd (ReadBlock env r (command_line LogBlockEnd s # rest)))) =
         encoded r @ [\<lparr>Block = b, LIBNum = lib\<rparr>] \<and>
       activeBlock (fst (snd (ReadBlock env r (command_line LogBlockEnd s # rest)))) = None \<and>
       fst (ReadBlock env r (command_line LogBlockEnd s # rest)) =
         (case Encode env \<lparr>Block = b, LIBNum = lib\<rparr> of
            Inl err \<Rightarrow> Err (OnLine (Foreign err) (command_line LogBlockEnd s))
          | Inr bstreamBlock \<Rightarrow> Ok bstreamBlock))"
proof (intro conjI allI impI)
  assume "activeBlock r = None"
  then show "ReadBlock env r (command_line LogBlockEnd s # rest) =
      (Err (OnLine (NoActiveBlock ''BLOCK_END'') (command_line LogBlockEnd s)), r, rest)"
    using assms by (simp add: ReadBlock_block_end readBlockEnd_no_active)
next
  fix b n
  assume "activeBlock r = Some b \<and> GetFirehoseBlockNumber env b = Some n \<and> n \<noteq> h"
  then show "ReadBlock env r (command_line LogBlockEnd s # rest) =
      (Err (OnLine (HeightMismatch n h) (command_line LogBlockEnd s)), r, rest)"
    using assms by (simp add: ReadBlock_block_end readBlockEnd_mismatch)
next
  fix b
  assume "activeBlock r = Some b \<and> GetFirehoseBlockNumber env b = Some h \<and>
          Transactions b = []"
  then show "ReadBlock env r (command_line LogBlockEnd s # rest) =
      (Err (OnLine (NoTransaction h) (command_line LogBlockEnd s)), r, rest)"
    using assms by (simp add: ReadBlock_block_end readBlockEnd_empty)
next
  fix b ref ident timestamp lib
  assume a: "activeBlock r = Some b \<and> GetFirehoseBlockNumber env b = Some h \<and>
       Transactions b \<noteq> [] \<and> AsRef env b = Some ref \<and>
       GetFirehoseBlockID env b = Some ident \<and>
       GetFirehoseBlockTime env b = Some timestamp \<and>
       GetFirehoseBlockLIBNum env b = Some lib"
  then have e: "readBlockEnd env r [s] =
    ((case Encode env \<lparr>Block = b, LIBNum = lib\<rparr> of
        Inl err \<Rightarrow> Err (Foreign err) | Inr bstreamBlock \<Rightarrow> Ok bstreamBlock),
     r\<lparr>stats :=
         \<lparr>lastBlock = ref,
          blockRate = blockRate (stats r) + 1,
          blockAverageParseTime = blockAverageParseTime (stats r) @
            [Now env (ticks r) - activeBlockStartTime r],
          transactionRate = transactionRate (stats r) + int (length (Transactions b))\<rparr>,
        ticks := Suc (ticks r),
        logged := logged r @ [DebugNodeBlock ident h timestamp],
        activeBlock := None,
        activeBlockStartTime := 0,
        encoded := encoded r @ [\<lparr>Block = b, LIBNum = lib\<rparr>]\<rparr>)"
    using assms(2) by (simp add: readBlockEnd_complete)
  show "encoded (fst (snd (ReadBlock env r (command_line LogBlockEnd s # rest)))) =
         encoded r @ [\<lparr>Block = b, LIBNum = lib\<rparr>]"
    using assms by (simp add: ReadBlock_block_end e split: sum.splits)
  show "activeBlock (fst (snd (ReadBlock env r (command_line LogBlockEnd s # rest)))) = None"
    using assms by (simp add: ReadBlock_block_end e split: sum.splits)
  show "fst (ReadBlock env r (command_line LogBlockEnd s # rest)) =
         (case Encode env \<lparr>Block = b, LIBNum = lib\<rparr> of
            Inl err \<Rightarrow> Err (OnLine (Foreign err) (command_line LogBlockEnd s))
          | Inr bstreamBlock \<Rightarrow> Ok bstreamBlock)"
    using assms by (simp add: ReadBlock_block_end e split: sum.splits)
qed

text \<open>
  C5: after the handshake, the line \<open>FIRE BLOCK_END h\<close> completes a block (the block in
  progress is handed to the encoder and the reader holds no block afterwards) exactly
  when a block is in progress, its block number is \<open>h\<close> and it holds a transaction.
  With no block in progress the line fails with the no-active-block error, with another
  block number with the height-mismatch error, with no transaction with the
  empty-block error; each of the three reaches the caller of \<open>ReadBlock\<close> wrapped with
  the text of the line, and leaves the reader as it was. The block number is what
  \<open>GetFirehoseBlockNumber\<close> returns for the block in progress; what \<open>ReadBlock\<close>
  returns for a completed block is the encoder's answer. The last part is the
  equivalence itself, for a block in progress on which the methods of \<open>pbsui\<close> return:
  the encoder is handed an envelope if and only if the three conditions hold.
\<close>

theorem C5_block_end:
  assumes "initRead r" and "ParseUint s = Inr h"
  shows
   "(activeBlock r = None \<longrightarrow>
       ReadBlock env r (command_line LogBlockEnd s # rest) =
         (Err (OnLine (NoActiveBlock ''BLOCK_END'') (command_line LogBlockEnd s)), r, rest)) \<and>
    (\<forall>b n. activeBlock r = Some b \<and> GetFirehoseBlockNumber env b = Some n \<and> n \<noteq> h \<longrightarrow>
       ReadBlock env r (command_line LogBlockEnd s # rest) =
         (Err (OnLine (HeightMismatch n h) (command_line LogBlockEnd s)), r, rest)) \<and>
    (\<forall>b. activeBlock r = Some b \<and> GetFirehoseBlockNumber env b = Some h \<and>
          Transactions b = [] \<longrightarrow>
       ReadBlock env r (command_line LogBlockEnd s # rest) =
         (Err (OnLine (NoTransaction h) (command_line LogBlockEnd s)), r, rest)) \<and>
    (\<forall>b ref ident timestamp lib.
       activeBlock r = Some b \<and> GetFirehoseBlockNumber env b = Some h \<and>
       Transactions b \<noteq> [] \<and> AsRef env b = Some ref \<and>
       GetFirehoseBlockID env b = Some ident \<and>
       GetFirehoseBlockTime env b = Some timestamp \<and>
       GetFirehoseBlockLIBNum env b = Some lib \<longrightarrow>
       encoded (fst (snd (ReadBlock env r (command_line LogBlockEnd s # rest)))) =
         encoded r @ [\<lparr>Block = b, LIBNum = lib\<rparr>] \<and>
       activeBlock (fst (snd (ReadBlock env r (command_line LogBlockEnd s # rest)))) = None \<and>
       fst (ReadBlock env r (command_line LogBlockEnd s # rest)) =
         (case Encode env \<lparr>Block = b, LIBNum = lib\<rparr> of
            Inl err \<Rightarrow> Err (OnLine (Foreign err) (command_line LogBlockEnd s))
          | Inr bstreamBlock \<Rightarrow> Ok bstreamBlock)) \<and>
    ((\<forall>b. activeBlock r = Some b \<longrightarrow> pbsui_methods_return env b) \<longrightarrow>
       (encoded (fst (snd (ReadBlock env r (command_line LogBlockEnd s # rest)))) \<noteq> encoded r) =
       (\<exists>b. activeBlock r = Some b \<and> GetFirehoseBlockNumber env b = Some h \<and>
            Transactions b \<noteq> []))"
proof -
  note cases = ReadBlock_block_end_cases [OF assms, of env rest]
  have iff: "(encoded (fst (snd (ReadBlock env r (command_line LogBlockEnd s # rest)))) \<noteq>
        encoded r) =
      (\<exists>b. activeBlock r = Some b \<and> GetFirehoseBlockNumber env b = Some h \<and>
           Transactions b \<noteq> [])"
    if ret: "\<forall>b. activeBlock r = Some b \<longrightarrow> pbsui_methods_return env b"
  proof (cases "activeBlock r")
    case None
    with cases show ?thesis by simp
  next
    case (Some b)
    with ret have "pbsui_methods_return env b" by simp
    then obtain n ref ident timestamp lib where
      m: "GetFirehoseBlockNumber env b = Some n" "AsRef env b = Some ref"
        "GetFirehoseBlockID env b = Some ident" "GetFirehoseBlockTime env b = Some timestamp"
        "GetFirehoseBlockLIBNum env b = Some lib"
      by (auto simp: pbsui_methods_return_def)
    show ?thesis
    proof (cases "n = h")
      case False
      with cases Some m(1) show ?thesis by simp
    next
      case True
      show ?thesis
      proof (cases "Transactions b = []")
        case True
        with cases Some m(1) \<open>n = h\<close> show ?thesis by simp
      next
        case False
        with cases Some m \<open>n = h\<close>
        have "encoded (fst (snd (ReadBlock env r (command_line LogBlockEnd s # rest)))) =
            encoded r @ [\<lparr>Block = b, LIBNum = lib\<rparr>]"
          by blast
        with Some m(1) \<open>n = h\<close> False show ?thesis by simp
      qed
    qed
  qed
  from cases iff show ?thesis by blast
qed

theorem C5_block_end_witness:
  "ReadBlock (example_env None) example_reader [''FIRE BLOCK_END 10''] =
     (Err (OnLine (NoActiveBlock ''BLOCK_END'') ''FIRE BLOCK_END 10''), example_reader, []) \<and>
   ReadBlock (example_env None) (example_reader_in_block [[84, 49]]) [''FIRE BLOCK_END 11''] =
     (Err (OnLine (HeightMismatch 10 11) ''FIRE BLOCK_END 11''),
      example_reader_in_block [[84, 49]], []) \<and>
   ReadBlock (example_env None) (example_reader_in_block []) [''FIRE BLOCK_END 10''] =
     (Err (OnLine (NoTransaction 10) ''FIRE BLOCK_END 10''), example_reader_in_block [], []) \<and>
   fst (ReadBlock (example_env None) (example_reader_in_block [[84, 49]])
         [''FIRE BLOCK_END 10'']) =
     Ok \<lparr>Block = example_block [[84, 49]], LIBNum = 10\<rparr> \<and>
   encoded (fst (snd (ReadBlock (example_env None) (example_reader_in_block [[84, 49]])
         [''FIRE BLOCK_END 10'']))) =
     [\<lparr>Block = example_block [[84, 49]], LIBNum = 10\<rparr>] \<and>
   encoded (fst (snd (ReadBlock (example_env None) (example_reader_in_block [[84, 49]])
         [''FIRE BLOCK_END 10'']))) \<noteq>
     encoded (example_reader_in_block [[84, 49]])"
proof -
  have i0: "initRead example_reader"
    by (simp add: example_defs)
  have i1: "initRead (example_reader_in_block txs)" for txs
    by (simp add: example_defs)
  have l10: "command_line LogBlockEnd ''10'' = ''FIRE BLOCK_END 10''"
    by (simp add: command_line_def LogBlockEnd_def LogPrefix_def)
  have l11: "command_line LogBlockEnd ''11'' = ''FIRE BLOCK_END 11''"
    by (simp add: command_line_def LogBlockEnd_def LogPrefix_def)
  have w1: "ReadBlock (example_env None) example_reader [''FIRE BLOCK_END 10''] =
     (Err (OnLine (NoActiveBlock ''BLOCK_END'') ''FIRE BLOCK_END 10''), example_reader, [])"
    using C5_block_end [OF i0 ParseUint_10, where env = "example_env None" and rest = "[]",
        THEN conjunct1]
    by (simp add: l10 example_defs)
  have w2: "ReadBlock (example_env None) (example_reader_in_block [[84, 49]])
       [''FIRE BLOCK_END 11''] =
     (Err (OnLine (HeightMismatch 10 11) ''FIRE BLOCK_END 11''),
      example_reader_in_block [[84, 49]], [])"
    using C5_block_end [OF i1 ParseUint_11, where env = "example_env None" and rest = "[]",
        THEN conjunct2, THEN conjunct1, rule_format, of "[[84, 49]]" "example_block [[84, 49]]" 10]
    by (simp add: l11 example_defs)
  have w3: "ReadBlock (example_env None) (example_reader_in_block []) [''FIRE BLOCK_END 10''] =
     (Err (OnLine (NoTransaction 10) ''FIRE BLOCK_END 10''), example_reader_in_block [], [])"
    using C5_block_end [OF i1 ParseUint_10, where env = "example_env None" and rest = "[]",
        THEN conjunct2, THEN conjunct2, THEN conjunct1, rule_format,
        of "[]" "example_block []"]
    by (simp add: l10 example_defs)
  have w4: "encoded (fst (snd (ReadBlock (example_env None) (example_reader_in_block [[84, 49]])
         [''FIRE BLOCK_END 10'']))) =
       encoded (example_reader_in_block [[84, 49]]) @
         [\<lparr>Block = example_block [[84, 49]], LIBNum = 10\<rparr>] \<and>
     activeBlock (fst (snd (ReadBlock (example_env None) (example_reader_in_block [[84, 49]])
         [''FIRE BLOCK_END 10'']))) = None \<and>
     fst (ReadBlock (example_env None) (example_reader_in_block [[84, 49]])
         [''FIRE BLOCK_END 10'']) =
       (case Encode (example_env None) \<lparr>Block = example_block [[84, 49]], LIBNum = 10\<rparr> of
          Inl err \<Rightarrow> Err (OnLine (Foreign err) ''FIRE BLOCK_END 10'')
        | Inr bstreamBlock \<Rightarrow> Ok bstreamBlock)"
    using C5_block_end [OF i1 ParseUint_10, where env = "example_env None" and rest = "[]",
        THEN conjunct2, THEN conjunct2, THEN conjunct2, THEN conjunct1, rule_format,
        of "[[84, 49]]" "example_block [[84, 49]]" "\<lparr>RefId = ''digest'', RefNum = 10\<rparr>"
           "''digest''" 0 10]
    by (simp add: l10 example_defs)
  have ret: "\<forall>b. activeBlock (example_reader_in_block [[84, 49]]) = Some b \<longrightarrow>
      pbsui_methods_return (example_env None) b"
    by (simp add: pbsui_methods_return_def example_defs)
  have w5: "encoded (fst (snd (ReadBlock (example_env None) (example_reader_in_block [[84, 49]])
         [''FIRE BLOCK_END 10'']))) \<noteq>
     encoded (example_reader_in_block [[84, 49]])"
    using C5_block_end [OF i1 [of "[[84, 49]]"] ParseUint_10,
        where env = "example_env None" and rest = "[]",
        THEN conjunct2, THEN conjunct2, THEN conjunct2, THEN conjunct2, THEN mp, OF ret]
    by (simp add: l10 example_defs)
  from w1 w2 w3 w4 w5 show ?thesis
    by (simp add: example_defs)
qed

text \<open>
  C7, as the claim states it, fails: an error of the encoder does not reach the caller
  of \<open>ReadBlock\<close> unchanged. \<open>next\<close> wraps every error of \<open>readBlockEnd\<close>, the encoder's
  too, with the text of the line.
\<close>

theorem C7_counterexample:
  "fst (ReadBlock ((example_env None)\<lparr>Encode := \<lambda>e. Inl ''encoder failed''\<rparr>) example_reader
     [''FIRE BLOCK_START 10'', ''FIRE CHECKPOINT Cg=='', ''FIRE TRX VDE='',
      ''FIRE BLOCK_END 10'']) =
   Err (OnLine (Foreign ''encoder failed'') ''FIRE BLOCK_END 10'')"
  by code_simp

text \<open>
  C7, amended: on a \<open>BLOCK_END\<close> that passes the three checks, the reader updates the
  statistics (one block more, the number of transactions of the block more, the time
  since \<open>BLOCK_START\<close>, the reference to the block), logs the block, resets the block
  in progress, and then calls the encoder. The reader afterwards is the same whether
  the encoder fails or not. \<open>readBlockEnd\<close> returns the encoder's error as it is, and
  \<open>ReadBlock\<close> returns it wrapped with the text of the line.
\<close>

theorem C7_encoder_after_reset:
  assumes "initRead r" and "ParseUint s = Inr h" and "activeBlock r = Some b"
    and "GetFirehoseBlockNumber env b = Some h" and "Transactions b \<noteq> []"
    and "AsRef env b = Some ref" and "GetFirehoseBlockID env b = Some ident"
    and "GetFirehoseBlockTime env b = Some timestamp"
    and "GetFirehoseBlockLIBNum env b = Some lib"
  shows
   "(let r' = r\<lparr>stats :=
                  \<lparr>lastBlock = ref,
                   blockRate = blockRate (stats r) + 1,
                   blockAverageParseTime = blockAverageParseTime (stats r) @
                     [Now env (ticks r) - activeBlockStartTime r],
                   transactionRate =
                     transactionRate (stats r) + int (length (Transactions b))\<rparr>,
                ticks := Suc (ticks r),
                logged := logged r @ [DebugNodeBlock ident h timestamp],
                activeBlock := None,
                activeBlockStartTime := 0,
                encoded := encoded r @ [\<lparr>Block = b, LIBNum = lib\<rparr>]\<rparr>
     in readBlockEnd env r [s] =
          ((case Encode env \<lparr>Block = b, LIBNum = lib\<rparr> of
              Inl err \<Rightarrow> Err (Foreign err) | Inr bstreamBlock \<Rightarrow> Ok bstreamBlock), r') \<and>
        ReadBlock env r (command_line LogBlockEnd s # rest) =
          ((case Encode env \<lparr>Block = b, LIBNum = lib\<rparr> of
              Inl err \<Rightarrow> Err (OnLine (Foreign err) (command_line LogBlockEnd s))
            | Inr bstreamBlock \<Rightarrow> Ok bstreamBlock), r', rest))"
  using assms
  by (simp add: Let_def ReadBlock_block_end readBlockEnd_complete split: sum.splits)

theorem C7_encoder_after_reset_witness:
  "ReadBlock ((example_env None)\<lparr>Encode := \<lambda>e. Inl ''encoder failed''\<rparr>)
     (example_reader_in_block [[84, 49], [84, 50]]) [''FIRE BLOCK_END 10''] =
   (Err (OnLine (Foreign ''encoder failed'') ''FIRE BLOCK_END 10''),
    example_reader
      \<lparr>stats := \<lparr>lastBlock = \<lparr>RefId = ''digest'', RefNum = 10\<rparr>, blockRate = 1,
                 blockAverageParseTime = [7], transactionRate = 2\<rparr>,
       ticks := 1,
       logged := [DebugNodeBlock ''digest'' 10 0],
       encoded := [\<lparr>Block = example_block [[84, 49], [84, 50]], LIBNum = 10\<rparr>]\<rparr>,
    [])"
proof -
  have l10: "command_line LogBlockEnd ''10'' = ''FIRE BLOCK_END 10''"
    by (simp add: command_line_def LogBlockEnd_def LogPrefix_def)
  have "initRead (example_reader_in_block [[84, 49], [84, 50]])"
    by (simp add: example_defs)
  from C7_encoder_after_reset [OF this ParseUint_10,
      where env = "(example_env None)\<lparr>Encode := \<lambda>e. Inl ''encoder failed''\<rparr>"
        and b = "example_block [[84, 49], [84, 50]]"
        and ref = "\<lparr>RefId = ''digest'', RefNum = 10\<rparr>" and ident = "''digest''"
        and timestamp = 0 and lib = 10 and rest = "[]"]
  show ?thesis
    by (simp add: l10 example_defs Let_def)
qed

subsection \<open>The accumulation commands\<close>

lemma validate_no_active:
  "activeBlock r = None \<Longrightarrow> validate env r [param] valueType = Err (NoActiveBlock valueType)"
  by (simp add: validate_def validateChunk_def)

lemma validate_bad_base64:
  "activeBlock r = Some b \<Longrightarrow> GetFirehoseBlockNumber env b = Some number \<Longrightarrow>
   DecodeString env param = Inl offset \<Longrightarrow>
   validate env r [param] valueType = Err (InvalidBase64 valueType number offset)"
  by (simp add: validate_def validateChunk_def)

lemma validate_ok:
  "activeBlock r = Some b \<Longrightarrow> DecodeString env param = Inr out \<Longrightarrow>
   validate env r [param] valueType = Ok out"
  by (simp add: validate_def validateChunk_def)

lemmas validate_cases = validate_no_active validate_bad_base64 validate_ok

lemma readCheckpointOverview_handler:
  "accumulation_handler env ''CHECKPOINT'' (UnmarshalCheckpoint env)
     (\<lambda>checkpoint b. b\<lparr>Checkpoint := Some checkpoint\<rparr>) (readCheckpointOverview env)"
  unfolding accumulation_handler_def readCheckpointOverview_def
  by (simp add: validate_cases)

lemma readTransactionBlock_handler:
  "accumulation_handler env ''TRX'' (UnmarshalTransaction env)
     (\<lambda>transaction b. b\<lparr>Transactions := Transactions b @ [transaction]\<rparr>)
     (readTransactionBlock env)"
  unfolding accumulation_handler_def readTransactionBlock_def
  by (simp add: validate_cases)

lemma readTransactionObjectChange_handler:
  "accumulation_handler env ''OBJ_CHANGE'' (UnmarshalObjectChange env)
     (\<lambda>tx_object_change b. b\<lparr>ObjectChange := Some tx_object_change\<rparr>)
     (readTransactionObjectChange env)"
  unfolding accumulation_handler_def readTransactionObjectChange_def
  by (simp add: validate_cases)

lemma readEvent_handler:
  "accumulation_handler env ''EVT'' (UnmarshalEvent env)
     (\<lambda>event b. b\<lparr>Events := Events b @ [event]\<rparr>) (readEvent env)"
  unfolding accumulation_handler_def readEvent_def
  by (simp add: validate_cases)

lemma readDisplayUpdate_handler:
  "accumulation_handler env ''DSP_UPDATE'' (UnmarshalDisplay env)
     (\<lambda>display_update b. b\<lparr>DisplayUpdates := DisplayUpdates b @ [display_update]\<rparr>)
     (readDisplayUpdate env)"
  unfolding accumulation_handler_def readDisplayUpdate_def
  by (simp add: validate_cases)

text \<open>
  C9, as the claim states it, fails: with one parameter, a block in progress and a
  parameter that is valid base64, the payload is not always written to the block. When
  the decoded bytes are not a message of the command's type, the handler fails with
  the invalid-proto error and the block is as before.
\<close>

theorem C9_counterexample:
  "activeBlock (example_reader_in_block []) \<noteq> None \<and>
   DecodeString (example_env None) ''AA=='' = Inr [0] \<and>
   readTransactionBlock (example_env None) (example_reader_in_block []) [''AA==''] =
     (Err (InvalidProto ''TRX'' 10 ''invalid proto''), example_reader_in_block [])"
  by (simp add: readTransactionBlock_def validate_def validateChunk_def example_defs)

text \<open>
  C9, amended: each of \<open>CHECKPOINT\<close>, \<open>TRX\<close>, \<open>OBJ_CHANGE\<close>, \<open>EVT\<close> and
  \<open>DSP_UPDATE\<close>, issued with one parameter, fails with the no-active-block error that
  names the command when no block is in progress; with the base64 error that names
  the command and the number of the block in progress when the parameter is not
  base64; with the invalid-proto error that names the command and the number of the
  block when the decoded bytes are not a message of the command's type; and otherwise
  appends the message to the transactions, events or display updates of the block, or
  sets its checkpoint or its object change.
\<close>

theorem C9_accumulation:
  "accumulation_handler env ''CHECKPOINT'' (UnmarshalCheckpoint env)
     (\<lambda>checkpoint b. b\<lparr>Checkpoint := Some checkpoint\<rparr>) (readCheckpointOverview env) \<and>
   accumulation_handler env ''TRX'' (UnmarshalTransaction env)
     (\<lambda>transaction b. b\<lparr>Transactions := Transactions b @ [transaction]\<rparr>)
     (readTransactionBlock env) \<and>
   accumulation_handler env ''OBJ_CHANGE'' (UnmarshalObjectChange env)
     (\<lambda>tx_object_change b. b\<lparr>ObjectChange := Some tx_object_change\<rparr>)
     (readTransactionObjectChange env) \<and>
   accumulation_handler env ''EVT'' (UnmarshalEvent env)
     (\<lambda>event b. b\<lparr>Events := Events b @ [event]\<rparr>) (readEvent env) \<and>
   accumulation_handler env ''DSP_UPDATE'' (UnmarshalDisplay env)
     (\<lambda>display_update b. b\<lparr>DisplayUpdates := DisplayUpdates b @ [display_update]\<rparr>)
     (readDisplayUpdate env)"
  by (intro conjI readCheckpointOverview_handler readTransactionBlock_handler
      readTransactionObjectChange_handler readEvent_handler readDisplayUpdate_handler)

theorem C9_accumulation_witness:
  "readCheckpointOverview (example_env None) example_reader [''Cw==''] =
     (Err (NoActiveBlock ''CHECKPOINT''), example_reader) \<and>
   readCheckpointOverview (example_env None) (example_reader_in_block []) [''!''] =
     (Err (InvalidBase64 ''CHECKPOINT'' 10 0), example_reader_in_block []) \<and>
   readCheckpointOverview (example_env None) (example_reader_in_block []) [''AA==''] =
     (Err (InvalidProto ''CHECKPOINT'' 10 ''invalid proto''), example_reader_in_block []) \<and>
   readCheckpointOverview (example_env None) (example_reader_in_block []) [''Cw==''] =
     (Ok (), (example_reader_in_block [])
        \<lparr>activeBlock := Some ((example_block [])\<lparr>Checkpoint := Some \<lparr>SequenceNumber = 11, OtherFields = ()\<rparr>\<rparr>)\<rparr>) \<and>
   readTransactionBlock (example_env None) example_reader [''VDE=''] =
     (Err (NoActiveBlock ''TRX''), example_reader) \<and>
   readTransactionBlock (example_env None) (example_reader_in_block []) [''!''] =
     (Err (InvalidBase64 ''TRX'' 10 0), example_reader_in_block []) \<and>
   readTransactionBlock (example_env None) (example_reader_in_block []) [''AA==''] =
     (Err (InvalidProto ''TRX'' 10 ''invalid proto''), example_reader_in_block []) \<and>
   readTransactionBlock (example_env None) (example_reader_in_block []) [''VDE=''] =
     (Ok (), (example_reader_in_block [])
        \<lparr>activeBlock := Some ((example_block [])\<lparr>Transactions := [[84, 49]]\<rparr>)\<rparr>) \<and>
   readTransactionObjectChange (example_env None) example_reader [''VDE=''] =
     (Err (NoActiveBlock ''OBJ_CHANGE''), example_reader) \<and>
   readTransactionObjectChange (example_env None) (example_reader_in_block []) [''!''] =
     (Err (InvalidBase64 ''OBJ_CHANGE'' 10 0), example_reader_in_block []) \<and>
   readTransactionObjectChange (example_env None) (example_reader_in_block []) [''AA==''] =
     (Err (InvalidProto ''OBJ_CHANGE'' 10 ''invalid proto''), example_reader_in_block []) \<and>
   readTransactionObjectChange (example_env None) (example_reader_in_block []) [''VDE=''] =
     (Ok (), (example_reader_in_block [])
        \<lparr>activeBlock := Some ((example_block [])\<lparr>ObjectChange := Some [84, 49]\<rparr>)\<rparr>) \<and>
   readEvent (example_env None) example_reader [''VDE=''] =
     (Err (NoActiveBlock ''EVT''), example_reader) \<and>
   readEvent (example_env None) (example_reader_in_block []) [''!''] =
     (Err (InvalidBase64 ''EVT'' 10 0), example_reader_in_block []) \<and>
   readEvent (example_env None) (example_reader_in_block []) [''AA==''] =
     (Err (InvalidProto ''EVT'' 10 ''invalid proto''), example_reader_in_block []) \<and>
   readEvent (example_env None) (example_reader_in_block []) [''VDE=''] =
     (Ok (), (example_reader_in_block [])
        \<lparr>activeBlock := Some ((example_block [])\<lparr>Events := [[84, 49]]\<rparr>)\<rparr>) \<and>
   readDisplayUpdate (example_env None) example_reader [''VDE=''] =
     (Err (NoActiveBlock ''DSP_UPDATE''), example_reader) \<and>
   readDisplayUpdate (example_env None) (example_reader_in_block []) [''!''] =
     (Err (InvalidBase64 ''DSP_UPDATE'' 10 0), example_reader_in_block []) \<and>
   readDisplayUpdate (example_env None) (example_reader_in_block []) [''AA==''] =
     (Err (InvalidProto ''DSP_UPDATE'' 10 ''invalid proto''), example_reader_in_block []) \<and>
   readDisplayUpdate (example_env None) (example_reader_in_block []) [''VDE=''] =
     (Ok (), (example_reader_in_block [])
        \<lparr>activeBlock := Some ((example_block [])\<lparr>DisplayUpdates := [[84, 49]]\<rparr>)\<rparr>)"
proof -
  note h1 = C9_accumulation [of "example_env None", THEN conjunct1,
      unfolded accumulation_handler_def, rule_format]
  have a1: "readCheckpointOverview (example_env None) example_reader [''Cw==''] =
     (Err (NoActiveBlock ''CHECKPOINT''), example_reader)"
    by (rule h1 [THEN conjunct1, rule_format]) (simp add: example_defs)
  have b1: "readCheckpointOverview (example_env None) (example_reader_in_block []) [''!''] =
     (Err (InvalidBase64 ''CHECKPOINT'' 10 0), example_reader_in_block [])"
    by (rule h1 [THEN conjunct2, THEN conjunct1, rule_format,
          where b = "example_block []"])
       (simp add: example_defs)
  have c1: "readCheckpointOverview (example_env None) (example_reader_in_block []) [''AA==''] =
     (Err (InvalidProto ''CHECKPOINT'' 10 ''invalid proto''), example_reader_in_block [])"
    by (rule h1 [THEN conjunct2, THEN conjunct2, THEN conjunct1, rule_format,
          where b = "example_block []" and out = "[0]"])
       (simp add: example_defs)
  have d1: "readCheckpointOverview (example_env None) (example_reader_in_block []) [''Cw==''] =
     (Ok (), (example_reader_in_block [])
        \<lparr>activeBlock := Some ((example_block [])\<lparr>Checkpoint := Some \<lparr>SequenceNumber = 11, OtherFields = ()\<rparr>\<rparr>)\<rparr>)"
    using h1 [THEN conjunct2, THEN conjunct2, THEN conjunct2, rule_format,
          where b = "example_block []" and out = "[11]" and m = "\<lparr>SequenceNumber = 11, OtherFields = ()\<rparr>"
            and r = "example_reader_in_block []" and param = "''Cw==''"]
    by (simp add: example_defs)
  note h2 = C9_accumulation [of "example_env None", THEN conjunct2, THEN conjunct1,
      unfolded accumulation_handler_def, rule_format]
  have a2: "readTransactionBlock (example_env None) example_reader [''VDE=''] =
     (Err (NoActiveBlock ''TRX''), example_reader)"
    by (rule h2 [THEN conjunct1, rule_format]) (simp add: example_defs)
  have b2: "readTransactionBlock (example_env None) (example_reader_in_block []) [''!''] =
     (Err (InvalidBase64 ''TRX'' 10 0), example_reader_in_block [])"
    by (rule h2 [THEN conjunct2, THEN conjunct1, rule_format,
          where b = "example_block []"])
       (simp add: example_defs)
  have c2: "readTransactionBlock (example_env None) (example_reader_in_block []) [''AA==''] =
     (Err (InvalidProto ''TRX'' 10 ''invalid proto''), example_reader_in_block [])"
    by (rule h2 [THEN conjunct2, THEN conjunct2, THEN conjunct1, rule_format,
          where b = "example_block []" and out = "[0]"])
       (simp add: example_defs)
  have d2: "readTransactionBlock (example_env None) (example_reader_in_block []) [''VDE=''] =
     (Ok (), (example_reader_in_block [])
        \<lparr>activeBlock := Some ((example_block [])\<lparr>Transactions := [[84, 49]]\<rparr>)\<rparr>)"
    using h2 [THEN conjunct2, THEN conjunct2, THEN conjunct2, rule_format,
          where b = "example_block []" and out = "[84, 49]" and m = "[84, 49]"
            and r = "example_reader_in_block []" and param = "''VDE=''"]
    by (simp add: example_defs)
  note h3 = C9_accumulation [of "example_env None", THEN conjunct2, THEN conjunct2, THEN conjunct1,
      unfolded accumulation_handler_def, rule_format]
  have a3: "readTransactionObjectChange (example_env None) example_reader [''VDE=''] =
     (Err (NoActiveBlock ''OBJ_CHANGE''), example_reader)"
    by (rule h3 [THEN conjunct1, rule_format]) (simp add: example_defs)
  have b3: "readTransactionObjectChange (example_env None) (example_reader_in_block []) [''!''] =
     (Err (InvalidBase64 ''OBJ_CHANGE'' 10 0), example_reader_in_block [])"
    by (rule h3 [THEN conjunct2, THEN conjunct1, rule_format,
          where b = "example_block []"])
       (simp add: example_defs)
  have c3: "readTransactionObjectChange (example_env None) (example_reader_in_block []) [''AA==''] =
     (Err (InvalidProto ''OBJ_CHANGE'' 10 ''invalid proto''), example_reader_in_block [])"
    by (rule h3 [THEN conjunct2, THEN conjunct2, THEN conjunct1, rule_format,
          where b = "example_block []" and out = "[0]"])
       (simp add: example_defs)
  have d3: "readTransactionObjectChange (example_env None) (example_reader_in_block []) [''VDE=''] =
     (Ok (), (example_reader_in_block [])
        \<lparr>activeBlock := Some ((example_block [])\<lparr>ObjectChange := Some [84, 49]\<rparr>)\<rparr>)"
    using h3 [THEN conjunct2, THEN conjunct2, THEN conjunct2, rule_format,
          where b = "example_block []" and out = "[84, 49]" and m = "[84, 49]"
            and r = "example_reader_in_block []" and param = "''VDE=''"]
    by (simp add: example_defs)
  note h4 = C9_accumulation [of "example_env None", THEN conjunct2, THEN conjunct2, THEN conjunct2, THEN conjunct1,
      unfolded accumulation_handler_def, rule_format]
  have a4: "readEvent (example_env None) example_reader [''VDE=''] =
     (Err (NoActiveBlock ''EVT''), example_reader)"
    by (rule h4 [THEN conjunct1, rule_format]) (simp add: example_defs)
  have b4: "readEvent (example_env None) (example_reader_in_block []) [''!''] =
     (Err (InvalidBase64 ''EVT'' 10 0), example_reader_in_block [])"
    by (rule h4 [THEN conjunct2, THEN conjunct1, rule_format,
          where b = "example_block []"])
       (simp add: example_defs)
  have c4: "readEvent (example_env None) (example_reader_in_block []) [''AA==''] =
     (Err (InvalidProto ''EVT'' 10 ''invalid proto''), example_reader_in_block [])"
    by (rule h4 [THEN conjunct2, THEN conjunct2, THEN conjunct1, rule_format,
          where b = "example_block []" and out = "[0]"])
       (simp add: example_defs)
  have d4: "readEvent (example_env None) (example_reader_in_block []) [''VDE=''] =
     (Ok (), (example_reader_in_block [])
        \<lparr>activeBlock := Some ((example_block [])\<lparr>Events := [[84, 49]]\<rparr>)\<rparr>)"
    using h4 [THEN conjunct2, THEN conjunct2, THEN conjunct2, rule_format,
          where b = "example_block []" and out = "[84, 49]" and m = "[84, 49]"
            and r = "example_reader_in_block []" and param = "''VDE=''"]
    by (simp add: example_defs)
  note h5 = C9_accumulation [of "example_env None", THEN conjunct2, THEN conjunct2, THEN conjunct2, THEN conjunct2,
      unfolded accumulation_handler_def, rule_format]
  have a5: "readDisplayUpdate (example_env None) example_reader [''VDE=''] =
     (Err (NoActiveBlock ''DSP_UPDATE''), example_reader)"
    by (rule h5 [THEN conjunct1, rule_format]) (simp add: example_defs)
  have b5: "readDisplayUpdate (example_env None) (example_reader_in_block []) [''!''] =
     (Err (InvalidBase64 ''DSP_UPDATE'' 10 0), example_reader_in_block [])"
    by (rule h5 [THEN conjunct2, THEN conjunct1, rule_format,
          where b = "example_block []"])
       (simp add: example_defs)
  have c5: "readDisplayUpdate (example_env None) (example_reader_in_block []) [''AA==''] =
     (Err (InvalidProto ''DSP_UPDATE'' 10 ''invalid proto''), example_reader_in_block [])"
    by (rule h5 [THEN conjunct2, THEN conjunct2, THEN conjunct1, rule_format,
          where b = "example_block []" and out = "[0]"])
       (simp add: example_defs)
  have d5: "readDisplayUpdate (example_env None) (example_reader_in_block []) [''VDE=''] =
     (Ok (), (example_reader_in_block [])
        \<lparr>activeBlock := Some ((example_block [])\<lparr>DisplayUpdates := [[84, 49]]\<rparr>)\<rparr>)"
    using h5 [THEN conjunct2, THEN conjunct2, THEN conjunct2, rule_format,
          where b = "example_block []" and out = "[84, 49]" and m = "[84, 49]"
            and r = "example_reader_in_block []" and param = "''VDE=''"]
    by (simp add: example_defs)
  from a1 b1 c1 d1 a2 b2 c2 d2 a3 b3 c3 d3 a4 b4 c4 d4 a5 b5 c5 d5
  show ?thesis by (intro conjI)
qed

subsection \<open>A whole block\<close>

lemma readBlockStart_fresh:
  "activeBlock r = None \<Longrightarrow> ParseUint s = Inr h \<Longrightarrow>
   readBlockStart env r [s] =
     (Ok (), r\<lparr>activeBlockStartTime := Now env (ticks r),
               ticks := Suc (ticks r),
               activeBlock := Some emptyCheckpointData\<rparr>)"
  by (simp add: readBlockStart_def validateChunk_def)

lemma next_continue:
  "next_turn env r line = Continue r' \<Longrightarrow> next' env r (line # rest) = next' env r' rest"
  by simp

lemma turn_block_start:
  assumes "initRead r" "activeBlock r = None" "ParseUint s = Inr h"
  shows "next_turn env r (command_line LogBlockStart s) =
     Continue (r\<lparr>activeBlockStartTime := Now env (ticks r),
                 ticks := Suc (ticks r),
                 activeBlock := Some emptyCheckpointData\<rparr>)"
proof -
  have "CHR '' '' \<notin> set LogBlockStart" by (simp add: LogBlockStart_def)
  moreover have "CHR '' '' \<notin> set s" using assms(3) by (rule ParseUint_no_space)
  ultimately show ?thesis
    using assms
    by (simp add: next_turn_command Log_distinct readBlockStart_fresh after_handler_def)
qed

lemma turn_checkpoint:
  assumes "initRead r" "activeBlock r = Some b" "CHR '' '' \<notin> set param"
    and "DecodeString env param = Inr out" "UnmarshalCheckpoint env out = Inr checkpoint"
  shows "next_turn env r (command_line LogCheckpoint param) =
     Continue (r\<lparr>activeBlock := Some (b\<lparr>Checkpoint := Some checkpoint\<rparr>)\<rparr>)"
proof -
  have "CHR '' '' \<notin> set LogCheckpoint" by (simp add: LogCheckpoint_def)
  moreover have "readCheckpointOverview env r [param] =
      (Ok (), r\<lparr>activeBlock := Some (b\<lparr>Checkpoint := Some checkpoint\<rparr>)\<rparr>)"
    using readCheckpointOverview_handler [of env] assms(2,4,5)
    unfolding accumulation_handler_def by blast
  ultimately show ?thesis
    using assms(1,3) by (simp add: next_turn_command after_handler_def)
qed

lemma turn_trx:
  assumes "initRead r" "activeBlock r = Some b" "CHR '' '' \<notin> set param"
    and "DecodeString env param = Inr out" "UnmarshalTransaction env out = Inr transaction"
  shows "next_turn env r (command_line LogTrx param) =
     Continue (r\<lparr>activeBlock := Some (b\<lparr>Transactions := Transactions b @ [transaction]\<rparr>)\<rparr>)"
proof -
  have "CHR '' '' \<notin> set LogTrx" by (simp add: LogTrx_def)
  moreover have "readTransactionBlock env r [param] =
      (Ok (), r\<lparr>activeBlock := Some (b\<lparr>Transactions := Transactions b @ [transaction]\<rparr>)\<rparr>)"
    using readTransactionBlock_handler [of env] assms(2,4,5)
    unfolding accumulation_handler_def by blast
  ultimately show ?thesis
    using assms(1,3) by (simp add: next_turn_command after_handler_def Log_distinct)
qed

text \<open>
  C1, as the claim states it, fails: \<open>BLOCK_START(10)\<close>, two \<open>TRX\<close> lines and
  \<open>BLOCK_END(10)\<close> do not yield a block. \<open>readBlockStart\<close> parses the height and
  stores it nowhere: the block in progress after \<open>BLOCK_START(10)\<close> is the empty
  \<open>CheckpointData\<close>, the same as after \<open>BLOCK_START(11)\<close>, and its checkpoint is nil.
  At \<open>BLOCK_END(10)\<close> the block number is asked of that block: the reader panics if
  the method of \<open>pbsui\<close> panics on a nil checkpoint, and fails with the height
  mismatch of 0 and 10 if the method answers 0.
\<close>

theorem C1_counterexample:
  "fst (ReadBlock (example_env None) example_reader
     [''FIRE BLOCK_START 10'', ''FIRE TRX VDE='', ''FIRE TRX VDI='', ''FIRE BLOCK_END 10'']) =
     Panic PbPanic \<and>
   fst (ReadBlock (example_env (Some 0)) example_reader
     [''FIRE BLOCK_START 10'', ''FIRE TRX VDE='', ''FIRE TRX VDI='', ''FIRE BLOCK_END 10'']) =
     Err (OnLine (HeightMismatch 0 10) ''FIRE BLOCK_END 10'') \<and>
   activeBlock (snd (readBlockStart (example_env None) example_reader [''10''])) =
     Some emptyCheckpointData \<and>
   activeBlock (snd (readBlockStart (example_env None) example_reader [''11''])) =
     Some emptyCheckpointData"
  by code_simp

text \<open>
  C1, amended: for every height \<open>h\<close>, \<open>BLOCK_START(h)\<close> with no block in progress
  records the start time and makes the empty \<open>CheckpointData\<close> the block in progress;
  \<open>h\<close> is not stored, and the number of the block is the one of the checkpoint that a
  \<open>CHECKPOINT\<close> line brings. So, after the handshake and with no block in progress, the
  lines \<open>BLOCK_START(h)\<close>, \<open>CHECKPOINT(base64(C))\<close>, \<open>TRX(base64(T1))\<close>,
  \<open>TRX(base64(T2))\<close>, \<open>BLOCK_END(h)\<close>, where the block with checkpoint \<open>C\<close> has number
  \<open>h\<close>, yield exactly one completed block: its transactions are \<open>[T1, T2]\<close> in this
  order, it is the one envelope handed to the encoder, \<open>ReadBlock\<close> returns the
  encoder's block, no block is in progress afterwards and the following lines are still
  in the channel.
\<close>

theorem C1_block_start_roundtrip:
  assumes "initRead r" and "activeBlock r = None" and "ParseUint s = Inr h"
    and "CHR '' '' \<notin> set pc" and "DecodeString env pc = Inr bc"
    and "UnmarshalCheckpoint env bc = Inr checkpoint"
    and "CHR '' '' \<notin> set p1" and "DecodeString env p1 = Inr b1"
    and "UnmarshalTransaction env b1 = Inr T1"
    and "CHR '' '' \<notin> set p2" and "DecodeString env p2 = Inr b2"
    and "UnmarshalTransaction env b2 = Inr T2"
    and "block = \<lparr>Checkpoint = Some checkpoint, Transactions = [T1, T2],
                   ObjectChange = None, Events = [], DisplayUpdates = []\<rparr>"
    and "GetFirehoseBlockNumber env block = Some h"
    and "AsRef env block = Some ref" and "GetFirehoseBlockID env block = Some ident"
    and "GetFirehoseBlockTime env block = Some timestamp"
    and "GetFirehoseBlockLIBNum env block = Some lib"
    and "Encode env \<lparr>Block = block, LIBNum = lib\<rparr> = Inr bstreamBlock"
    and "lines = [command_line LogBlockStart s, command_line LogCheckpoint pc,
                  command_line LogTrx p1, command_line LogTrx p2,
                  command_line LogBlockEnd s]"
  shows
   "readBlockStart env r [s] =
      (Ok (), r\<lparr>activeBlockStartTime := Now env (ticks r),
                ticks := Suc (ticks r),
                activeBlock := Some emptyCheckpointData\<rparr>) \<and>
    fst (ReadBlock env r (lines @ rest)) = Ok bstreamBlock \<and>
    snd (snd (ReadBlock env r (lines @ rest))) = rest \<and>
    encoded (fst (snd (ReadBlock env r (lines @ rest)))) =
      encoded r @ [\<lparr>Block = block, LIBNum = lib\<rparr>] \<and>
    activeBlock (fst (snd (ReadBlock env r (lines @ rest)))) = None"
proof -
  define r1 where "r1 = r\<lparr>activeBlockStartTime := Now env (ticks r),
      ticks := Suc (ticks r), activeBlock := Some emptyCheckpointData\<rparr>"
  define r2 where "r2 = r1\<lparr>activeBlock :=
      Some (emptyCheckpointData\<lparr>Checkpoint := Some checkpoint\<rparr>)\<rparr>"
  define r3 where "r3 = r2\<lparr>activeBlock :=
      Some (emptyCheckpointData\<lparr>Checkpoint := Some checkpoint, Transactions := [T1]\<rparr>)\<rparr>"
  define r4 where "r4 = r3\<lparr>activeBlock := Some block\<rparr>"
  have start: "readBlockStart env r [s] = (Ok (), r1)"
    unfolding r1_def using assms(2,3) by (rule readBlockStart_fresh)
  have t1: "next_turn env r (command_line LogBlockStart s) = Continue r1"
    unfolding r1_def using assms(1,2,3) by (rule turn_block_start)
  have i1: "initRead r1" "activeBlock r1 = Some emptyCheckpointData"
    using assms(1) by (simp_all add: r1_def)
  have t2: "next_turn env r1 (command_line LogCheckpoint pc) = Continue r2"
    unfolding r2_def using i1 assms(4,5,6) by (rule turn_checkpoint)
  have i2: "initRead r2"
    "activeBlock r2 = Some (emptyCheckpointData\<lparr>Checkpoint := Some checkpoint\<rparr>)"
    using i1 by (simp_all add: r2_def)
  have t3: "next_turn env r2 (command_line LogTrx p1) = Continue r3"
    using turn_trx [OF i2 assms(7,8,9)] by (simp add: r3_def emptyCheckpointData_def)
  have i3: "initRead r3"
    "activeBlock r3 =
       Some (emptyCheckpointData\<lparr>Checkpoint := Some checkpoint, Transactions := [T1]\<rparr>)"
    using i2 by (simp_all add: r3_def)
  have t4: "next_turn env r3 (command_line LogTrx p2) = Continue r4"
    using turn_trx [OF i3 assms(10,11,12)]
    by (simp add: r4_def emptyCheckpointData_def assms(13))
  have i4: "initRead r4" "activeBlock r4 = Some block"
    using i3 by (simp_all add: r4_def)
  have tx: "Transactions block \<noteq> []"
    by (simp add: assms(13))
  have e: "readBlockEnd env r4 [s] =
    (Ok bstreamBlock,
     r4\<lparr>stats :=
         \<lparr>lastBlock = ref,
          blockRate = blockRate (stats r4) + 1,
          blockAverageParseTime = blockAverageParseTime (stats r4) @
            [Now env (ticks r4) - activeBlockStartTime r4],
          transactionRate = transactionRate (stats r4) + int (length (Transactions block))\<rparr>,
        ticks := Suc (ticks r4),
        logged := logged r4 @ [DebugNodeBlock ident h timestamp],
        activeBlock := None,
        activeBlockStartTime := 0,
        encoded := encoded r4 @ [\<lparr>Block = block, LIBNum = lib\<rparr>]\<rparr>)"
    using readBlockEnd_complete [OF assms(3) i4(2) assms(14) tx assms(15,16,17,18)]
    by (simp add: assms(19))
  have enc: "encoded r4 = encoded r"
    by (simp add: r4_def r3_def r2_def r1_def)
  have "ReadBlock env r (lines @ rest) = ReadBlock env r4 (command_line LogBlockEnd s # rest)"
    by (simp add: ReadBlock_next assms(20) t1 t2 t3 t4)
  then show ?thesis
    using start by (simp add: ReadBlock_block_end [OF i4(1) assms(3)] e enc r1_def)
qed

theorem C1_block_start_roundtrip_witness:
  "readBlockStart (example_env None) example_reader [''10''] =
     (Ok (), example_reader\<lparr>activeBlockStartTime := 100, ticks := 1,
        activeBlock := Some emptyCheckpointData\<rparr>) \<and>
   fst (ReadBlock (example_env None) example_reader
     [''FIRE BLOCK_START 10'', ''FIRE CHECKPOINT Cg=='', ''FIRE TRX VDE='', ''FIRE TRX VDI='',
      ''FIRE BLOCK_END 10'', ''later'']) =
     Ok \<lparr>Block = example_block [[84, 49], [84, 50]], LIBNum = 10\<rparr> \<and>
   snd (snd (ReadBlock (example_env None) example_reader
     [''FIRE BLOCK_START 10'', ''FIRE CHECKPOINT Cg=='', ''FIRE TRX VDE='', ''FIRE TRX VDI='',
      ''FIRE BLOCK_END 10'', ''later''])) = [''later''] \<and>
   encoded (fst (snd (ReadBlock (example_env None) example_reader
     [''FIRE BLOCK_START 10'', ''FIRE CHECKPOINT Cg=='', ''FIRE TRX VDE='', ''FIRE TRX VDI='',
      ''FIRE BLOCK_END 10'', ''later'']))) =
     [\<lparr>Block = example_block [[84, 49], [84, 50]], LIBNum = 10\<rparr>] \<and>
   activeBlock (fst (snd (ReadBlock (example_env None) example_reader
     [''FIRE BLOCK_START 10'', ''FIRE CHECKPOINT Cg=='', ''FIRE TRX VDE='', ''FIRE TRX VDI='',
      ''FIRE BLOCK_END 10'', ''later'']))) = None"
  using C1_block_start_roundtrip [where env = "example_env None" and r = example_reader
      and s = "''10''" and h = 10
      and pc = "''Cg==''" and bc = "[10]"
      and checkpoint = "\<lparr>SequenceNumber = 10, OtherFields = ()\<rparr>"
      and ?p1.0 = "''VDE=''" and ?b1.0 = "[84, 49]" and ?T1.0 = "[84, 49]"
      and ?p2.0 = "''VDI=''" and ?b2.0 = "[84, 50]" and ?T2.0 = "[84, 50]"
      and block = "example_block [[84, 49], [84, 50]]"
      and ref = "\<lparr>RefId = ''digest'', RefNum = 10\<rparr>" and ident = "''digest''"
      and timestamp = 0 and lib = 10
      and bstreamBlock = "\<lparr>Block = example_block [[84, 49], [84, 50]], LIBNum = 10\<rparr>"
      and lines = "[''FIRE BLOCK_START 10'', ''FIRE CHECKPOINT Cg=='', ''FIRE TRX VDE='',
        ''FIRE TRX VDI='', ''FIRE BLOCK_END 10'']"
      and rest = "[''later'']"]
  by (simp add: ParseUint_10 example_defs command_line_def Log_defs LogPrefix_def)

end
